theory Spec2Isabelle
  imports Main "HOL-Library.Sublist"
begin

section \<open>Python values and the built-in operations the translator uses\<close>

text \<open>
  Descriptors, caller-supplied values and templates are the nested documents that the YAML
  and JSON loaders return: scalars, sequences and mappings. A mapping is an association
  list in insertion order (the descriptor is loaded into an ordered mapping). Mapping keys
  are strings, as every key the translator addresses is, and the keys of a mapping are
  distinct; floating-point scalars do not occur in the model. \<open>PDate\<close> is the date scalar the YAML loader produces for the
  version line of the base template.
\<close>

datatype pyval =
    PNone
  | PBool bool
  | PInt int
  | PStr string
  | PDate nat nat nat
  | PList "pyval list"
  | PDict "(string \<times> pyval) list"

text \<open>
  Every exception the translator raises itself (the last five) or provokes in a built-in
  operation is a value. \<open>ExternalError\<close> stands for an exception of an external library.
\<close>

datatype error =
    KeyError pyval
  | TypeError
  | AttributeError
  | IndexError
  | ValueError
  | AssertionError
  | UnboundLocalError
  | ExternalError
  | InputValuesMissing string
  | ParamYAMLNotWellFormed
  | ParamYAMLInputMissing
  | IPAddrInvalidInput
  | UserDataFormatNotFound

definition ebind :: "error + 'a \<Rightarrow> ('a \<Rightarrow> error + 'b) \<Rightarrow> error + 'b" where
  "ebind m f = (case m of Inl e \<Rightarrow> Inl e | Inr x \<Rightarrow> f x)"

subsection \<open>Mappings\<close>

text \<open>\<open>d[k] = v\<close>: an existing key keeps its position, a new key goes last.\<close>

fun set_key :: "'k \<Rightarrow> 'v \<Rightarrow> ('k \<times> 'v) list \<Rightarrow> ('k \<times> 'v) list" where
  "set_key k v [] = [(k, v)]"
| "set_key k v ((k', v') # kvs) = (if k' = k then (k, v) # kvs else (k', v') # set_key k v kvs)"

text \<open>Removal of a key, as \<open>d.pop(k, default)\<close> leaves the mapping.\<close>

fun del_key :: "'k \<Rightarrow> ('k \<times> 'v) list \<Rightarrow> ('k \<times> 'v) list" where
  "del_key k [] = []"
| "del_key k ((k', v') # kvs) = (if k' = k then del_key k kvs else (k', v') # del_key k kvs)"

text \<open>\<open>d.update(other)\<close> for a mapping \<open>other\<close>.\<close>

fun dict_update :: "('k \<times> 'v) list \<Rightarrow> ('k \<times> 'v) list \<Rightarrow> ('k \<times> 'v) list" where
  "dict_update d [] = d"
| "dict_update d ((k, v) # kvs) = dict_update (set_key k v d) kvs"

definition has_key :: "('k \<times> 'v) list \<Rightarrow> 'k \<Rightarrow> bool" where
  "has_key kvs k = (map_of kvs k \<noteq> None)"

subsection \<open>Truth value, equality, membership, subscription\<close>

fun py_truthy :: "pyval \<Rightarrow> bool" where
  "py_truthy PNone = False"
| "py_truthy (PBool b) = b"
| "py_truthy (PInt i) = (i \<noteq> 0)"
| "py_truthy (PStr s) = (s \<noteq> [])"
| "py_truthy (PDate y m d) = True"
| "py_truthy (PList xs) = (xs \<noteq> [])"
| "py_truthy (PDict kvs) = (kvs \<noteq> [])"

text \<open>
  \<open>==\<close>: a truth value equals the integer 0 or 1, sequences are compared element by
  element, mappings entry by entry whatever their order.
\<close>

fun py_eq :: "pyval \<Rightarrow> pyval \<Rightarrow> bool"
  and py_eq_list :: "pyval list \<Rightarrow> pyval list \<Rightarrow> bool"
  and py_eq_items :: "(string \<times> pyval) list \<Rightarrow> (string \<times> pyval) list \<Rightarrow> bool" where
  "py_eq (PBool a) (PInt i) = (i = (if a then 1 else 0))"
| "py_eq (PInt i) (PBool a) = (i = (if a then 1 else 0))"
| "py_eq (PList xs) (PList ys) = py_eq_list xs ys"
| "py_eq (PDict a) (PDict b) = (length a = length b \<and> py_eq_items a b)"
| "py_eq (PList xs) y = False"
| "py_eq (PDict a) y = False"
| "py_eq x y = (x = y)"
| "py_eq_list [] ys = (ys = [])"
| "py_eq_list (x # xs) [] = False"
| "py_eq_list (x # xs) (y # ys) = (py_eq x y \<and> py_eq_list xs ys)"
| "py_eq_items [] b = True"
| "py_eq_items ((k, v) # a) b =
     (case map_of b k of None \<Rightarrow> False | Some w \<Rightarrow> py_eq v w \<and> py_eq_items a b)"

text \<open>
  \<open>x in c\<close>. In a mapping only a hashable \<open>x\<close> can be looked up, and only a string can be
  one of its keys; in a string only a string can be searched for.
\<close>

fun py_in :: "pyval \<Rightarrow> pyval \<Rightarrow> error + bool" where
  "py_in (PStr k) (PDict kvs) = Inr (has_key kvs k)"
| "py_in (PList xs) (PDict kvs) = Inl TypeError"
| "py_in (PDict d) (PDict kvs) = Inl TypeError"
| "py_in x (PDict kvs) = Inr False"
| "py_in x (PList ys) = Inr (list_ex (py_eq x) ys)"
| "py_in (PStr t) (PStr s) = Inr (sublist t s)"
| "py_in x c = Inl TypeError"

text \<open>Indexing a sequence: position \<open>-1\<close> is the last one, \<open>-2\<close> the one before, and so on.\<close>

definition py_index :: "'a list \<Rightarrow> int \<Rightarrow> error + 'a" where
  "py_index xs i =
     (if i < - int (length xs) \<or> int (length xs) \<le> i then Inl IndexError
      else if i < 0 then Inr (xs ! nat (int (length xs) + i))
      else Inr (xs ! nat i))"

text \<open>\<open>c[x]\<close>.\<close>

fun py_getitem :: "pyval \<Rightarrow> pyval \<Rightarrow> error + pyval" where
  "py_getitem (PDict kvs) (PStr k) =
     (case map_of kvs k of None \<Rightarrow> Inl (KeyError (PStr k)) | Some v \<Rightarrow> Inr v)"
| "py_getitem (PDict kvs) (PList xs) = Inl TypeError"
| "py_getitem (PDict kvs) (PDict d) = Inl TypeError"
| "py_getitem (PDict kvs) x = Inl (KeyError x)"
| "py_getitem (PList xs) (PInt i) = py_index xs i"
| "py_getitem (PList xs) (PBool b) = py_index xs (if b then 1 else 0)"
| "py_getitem (PStr s) (PInt i) = map_sum id (\<lambda>c. PStr [c]) (py_index s i)"
| "py_getitem (PStr s) (PBool b) = map_sum id (\<lambda>c. PStr [c]) (py_index s (if b then 1 else 0))"
| "py_getitem c x = Inl TypeError"

text \<open>\<open>c[k]\<close> and \<open>c[k] = v\<close> for a string literal \<open>k\<close>.\<close>

definition getitem :: "pyval \<Rightarrow> string \<Rightarrow> error + pyval" where
  "getitem c k = py_getitem c (PStr k)"

fun setitem :: "pyval \<Rightarrow> string \<Rightarrow> pyval \<Rightarrow> error + pyval" where
  "setitem (PDict kvs) k v = Inr (PDict (set_key k v kvs))"
| "setitem c k v = Inl TypeError"

text \<open>\<open>d.get(k, default)\<close>, \<open>d.pop(k, default)\<close>, \<open>d.items()\<close>: methods of a mapping only.\<close>

fun py_get :: "pyval \<Rightarrow> string \<Rightarrow> pyval \<Rightarrow> error + pyval" where
  "py_get (PDict kvs) k dflt = Inr (case map_of kvs k of None \<Rightarrow> dflt | Some v \<Rightarrow> v)"
| "py_get c k dflt = Inl AttributeError"

fun py_pop :: "pyval \<Rightarrow> string \<Rightarrow> pyval \<Rightarrow> error + (pyval \<times> pyval)" where
  "py_pop (PDict kvs) k dflt =
     Inr (case map_of kvs k of None \<Rightarrow> dflt | Some v \<Rightarrow> v, PDict (del_key k kvs))"
| "py_pop (PList xs) k dflt = Inl TypeError"
| "py_pop c k dflt = Inl AttributeError"

fun py_items :: "pyval \<Rightarrow> error + (string \<times> pyval) list" where
  "py_items (PDict kvs) = Inr kvs"
| "py_items c = Inl AttributeError"

text \<open>\<open>list(d.items())[0]\<close>.\<close>

definition first_item :: "pyval \<Rightarrow> error + (string \<times> pyval)" where
  "first_item d =
     ebind (py_items d) (\<lambda>kvs. case kvs of [] \<Rightarrow> Inl IndexError | kv # rest \<Rightarrow> Inr kv)"

text \<open>What a \<open>for\<close> loop over a value visits.\<close>

fun py_iter :: "pyval \<Rightarrow> error + pyval list" where
  "py_iter (PList xs) = Inr xs"
| "py_iter (PDict kvs) = Inr (map (\<lambda>kv. PStr (fst kv)) kvs)"
| "py_iter (PStr s) = Inr (map (\<lambda>c. PStr [c]) s)"
| "py_iter c = Inl TypeError"

text \<open>\<open>d.pop(k)\<close> without a default.\<close>

definition py_pop1 :: "pyval \<Rightarrow> string \<Rightarrow> error + (pyval \<times> pyval)" where
  "py_pop1 d k = ebind (getitem d k) (\<lambda>v. py_pop d k v)"

text \<open>\<open>value[:255]\<close>: the first 255 elements of a string or of a sequence.\<close>

fun py_slice255 :: "pyval \<Rightarrow> error + pyval" where
  "py_slice255 (PStr s) = Inr (PStr (take 255 s))"
| "py_slice255 (PList xs) = Inr (PList (take 255 xs))"
| "py_slice255 x = Inl TypeError"

subsection \<open>Numbers and text\<close>

text \<open>Decimal digits of a natural number, as \<open>%d\<close> prints them.\<close>

fun decimal :: "nat \<Rightarrow> string" where
  "decimal n =
     (if n < 10 then [''0123456789'' ! n]
      else decimal (n div 10) @ [''0123456789'' ! (n mod 10)])"

declare decimal.simps [simp del]

definition format_d :: "int \<Rightarrow> string" where
  "format_d i = (if i < 0 then ''-'' @ decimal (nat (- i)) else decimal (nat i))"

text \<open>The characters that \<open>int\<close> and \<open>strip\<close> take for white space.\<close>

definition is_space :: "char \<Rightarrow> bool" where
  "is_space c =
     (c \<in> set [CHR '' '', CHR 0x09, CHR 0x0A, CHR 0x0B, CHR 0x0C, CHR 0x0D,
                CHR 0x1C, CHR 0x1D, CHR 0x1E, CHR 0x1F, CHR 0x85, CHR 0xA0])"

definition digit_val :: "char \<Rightarrow> nat option" where
  "digit_val c =
     (let n = (of_char c :: nat) in if 48 \<le> n \<and> n \<le> 57 then Some (n - 48) else None)"

fun digits_val :: "nat \<Rightarrow> string \<Rightarrow> nat option" where
  "digits_val acc [] = Some acc"
| "digits_val acc (c # cs) =
     (case digit_val c of None \<Rightarrow> None | Some d \<Rightarrow> digits_val (10 * acc + d) cs)"

text \<open>
  Digit grouping: a single underscore may stand between two digits. The underscores of a
  numeral are removed; two underscores in a row, or one at the end, are an error.
\<close>

fun ungroup :: "string \<Rightarrow> string option" where
  "ungroup [] = Some []"
| "ungroup (c # cs) =
     (if c = CHR ''_'' then
        (case cs of [] \<Rightarrow> None | d # ds \<Rightarrow> if d = CHR ''_'' then None else ungroup cs)
      else map_option ((#) c) (ungroup cs))"

text \<open>
  \<open>int(s)\<close> for a string, as Python 3 reads it: surrounding white space is dropped, one
  sign is allowed, and a numeral must follow, that is, at least one decimal digit, with
  single underscores between digits at most (\<open>'1_000'\<close> is 1000; an underscore at either end
  of the numeral is an error).
\<close>

definition int_of_string :: "string \<Rightarrow> error + int" where
  "int_of_string s =
     (let t = rev (dropWhile is_space (rev (dropWhile is_space s)));
          (neg, ds) = (case t of
                         c # cs \<Rightarrow> if c = CHR ''-'' then (True, cs)
                                   else if c = CHR ''+'' then (False, cs) else (False, t)
                       | [] \<Rightarrow> (False, t))
      in if ds = [] \<or> hd ds = CHR ''_'' then Inl ValueError
         else case ungroup ds of
                None \<Rightarrow> Inl ValueError
              | Some plain \<Rightarrow>
                  (case digits_val 0 plain of
                     None \<Rightarrow> Inl ValueError
                   | Some n \<Rightarrow> Inr (if neg then - int n else int n)))"

text \<open>\<open>int(x)\<close>.\<close>

fun py_int :: "pyval \<Rightarrow> error + int" where
  "py_int (PInt i) = Inr i"
| "py_int (PBool b) = Inr (if b then 1 else 0)"
| "py_int (PStr s) = int_of_string s"
| "py_int x = Inl TypeError"

text \<open>A text padded with zeros on the left to a given width, and the text of a date.\<close>

definition pad0 :: "nat \<Rightarrow> string \<Rightarrow> string" where
  "pad0 w s = replicate (w - length s) CHR ''0'' @ s"

definition date_text :: "nat \<Rightarrow> nat \<Rightarrow> nat \<Rightarrow> string" where
  "date_text y m d = pad0 4 (decimal y) @ ''-'' @ pad0 2 (decimal m) @ ''-'' @ pad0 2 (decimal d)"

subsection \<open>Updating a mapping\<close>

text \<open>
  The key that a scalar is when \<open>update\<close> stores it into a mapping. Keys are strings in the
  model, so a scalar that is not a string is held under the text that \<open>str\<close> gives it, a
  truth value under the text of the integer it equals (\<open>True\<close> and \<open>1\<close> are one key).
  Sequences and mappings are not hashable: they are no key.
\<close>

fun key_of :: "pyval \<Rightarrow> string option" where
  "key_of (PStr s) = Some s"
| "key_of (PInt i) = Some (format_d i)"
| "key_of (PBool b) = Some (format_d (if b then 1 else 0))"
| "key_of PNone = Some ''None''"
| "key_of (PDate y m d) = Some (date_text y m d)"
| "key_of (PList xs) = None"
| "key_of (PDict kvs) = None"

text \<open>
  \<open>d.update(other)\<close>. Besides a mapping, \<open>other\<close> may be a sequence whose elements are
  themselves sequences of two elements, a key and a value; iterating a mapping yields its
  keys, iterating a string its characters. An element that cannot be iterated, or whose
  first element is not hashable, is a type error; an element of another length is a value
  error. The only mapping that the translator updates from a value that may be such a
  sequence is the metadata of a unit, which it never looks up afterwards.
\<close>

definition as_pair :: "pyval \<Rightarrow> error + (string \<times> pyval)" where
  "as_pair x =
     (case x of
        PList xs \<Rightarrow>
          (case xs of
             [k, v] \<Rightarrow> (case key_of k of Some s \<Rightarrow> Inr (s, v) | None \<Rightarrow> Inl TypeError)
           | _ \<Rightarrow> Inl ValueError)
      | PStr s \<Rightarrow> (case s of [a, b] \<Rightarrow> Inr ([a], PStr [b]) | _ \<Rightarrow> Inl ValueError)
      | PDict kvs \<Rightarrow> (case kvs of [(k1, v1), (k2, v2)] \<Rightarrow> Inr (k1, PStr k2) | _ \<Rightarrow> Inl ValueError)
      | _ \<Rightarrow> Inl TypeError)"

fun update_from_pairs :: "(string \<times> pyval) list \<Rightarrow> pyval list \<Rightarrow> error + (string \<times> pyval) list" where
  "update_from_pairs d [] = Inr d"
| "update_from_pairs d (x # xs) =
     (case as_pair x of Inl e \<Rightarrow> Inl e | Inr (k, v) \<Rightarrow> update_from_pairs (set_key k v d) xs)"

fun py_update :: "(string \<times> pyval) list \<Rightarrow> pyval \<Rightarrow> error + (string \<times> pyval) list" where
  "py_update d (PDict kvs) = Inr (dict_update d kvs)"
| "py_update d (PList xs) = update_from_pairs d xs"
| "py_update d (PStr s) = (if s = [] then Inr d else Inl ValueError)"
| "py_update d x = Inl TypeError"

section \<open>Scaling expansion\<close>

definition SCALING_POLICY :: string where
  "SCALING_POLICY = ''tosca.policies.tacker.Scaling''"

definition ALARMING_POLICY :: string where
  "ALARMING_POLICY = ''tosca.policies.tacker.Alarming''"

text \<open>\<open>'%s_scale_%s' % (policy_name, action)\<close>, both arguments being strings.\<close>

definition get_scaling_policy_name :: "string \<Rightarrow> string \<Rightarrow> string" where
  "get_scaling_policy_name action policy_name = policy_name @ ''_scale_'' @ action"

definition convert_to_heat_scaling_group :: "pyval \<Rightarrow> string \<Rightarrow> string \<Rightarrow> error + pyval" where
  "convert_to_heat_scaling_group policy_prp scale_resource_type name =
     ebind (getitem policy_prp ''min_instances'') (\<lambda>min_size.
     ebind (getitem policy_prp ''max_instances'') (\<lambda>max_size.
     ebind (getitem policy_prp ''default_instances'') (\<lambda>desired_capacity.
     ebind (getitem policy_prp ''cooldown'') (\<lambda>cooldown.
       Inr (PDict
         [(''type'', PStr ''OS::Heat::AutoScalingGroup''),
          (''properties'', PDict
             [(''min_size'', min_size),
              (''max_size'', max_size),
              (''desired_capacity'', desired_capacity),
              (''cooldown'', cooldown),
              (''resource'', PDict [(''type'', PStr scale_resource_type)])])])))))"

definition get_scale_group_name :: "pyval \<Rightarrow> string" where
  "get_scale_group_name targets = ''G1''"

text \<open>
  The result is the pair \<open>(resources, scaling_group_names)\<close>. The scale-in policy is a deep
  copy of the scale-out policy in which \<open>scaling_adjustment\<close> is replaced by the text
  \<open>'-%d' % int(increment)\<close>.
\<close>

definition convert_to_heat_scaling_policy ::
  "pyval \<Rightarrow> string \<Rightarrow> string \<Rightarrow> error + ((string \<times> pyval) list \<times> (string \<times> pyval) list)" where
  "convert_to_heat_scaling_policy policy_prp scale_resource_type name =
     ebind (getitem policy_prp ''targets'') (\<lambda>targets.
     let scale_grp = get_scale_group_name targets;
         scaling_group_names = set_key name (PStr scale_grp) []
     in
     ebind (convert_to_heat_scaling_group policy_prp scale_resource_type scale_grp) (\<lambda>group_hot.
     let resources = set_key scale_grp group_hot [];
         grp_id = PDict [(''get_resource'', PStr scale_grp)]
     in
     ebind (getitem policy_prp ''cooldown'') (\<lambda>cooldown.
     ebind (getitem policy_prp ''increment'') (\<lambda>increment.
     let properties =
           [(''adjustment_type'', PStr ''change_in_capacity''),
            (''cooldown'', cooldown),
            (''scaling_adjustment'', increment),
            (''auto_scaling_group_id'', grp_id)];
         policy_hot = [(''type'', PStr ''OS::Heat::ScalingPolicy''), (''properties'', PDict properties)];
         resources = set_key (get_scaling_policy_name ''out'' name) (PDict policy_hot) resources
     in
     ebind (getitem policy_prp ''increment'') (\<lambda>increment'.
     ebind (py_int increment') (\<lambda>i.
     let in_value = PStr (''-'' @ format_d i);
         policy_hot_in =
           [(''type'', PStr ''OS::Heat::ScalingPolicy''),
            (''properties'', PDict (set_key ''scaling_adjustment'' in_value properties))];
         resources = set_key (get_scaling_policy_name ''in'' name) (PDict policy_hot_in) resources
     in Inr (resources, scaling_group_names)))))))"

section \<open>External collaborators and the translator's state\<close>

text \<open>
  The YAML and JSON libraries, the interpreter's \<open>repr\<close> of a container and the
  orchestration client's capability probe are not part of the translator: they are
  parameters. \<open>yaml_load\<close> yields \<open>None\<close> when the loader raises.
\<close>

record ext =
  yaml_dump :: "pyval \<Rightarrow> string"
  yaml_load :: "pyval \<Rightarrow> pyval option"
  simple_ordered_parse :: "pyval \<Rightarrow> error + pyval"
  json_dumps :: "pyval \<Rightarrow> string"
  repr_of :: "pyval \<Rightarrow> string"

text \<open>\<open>str(x)\<close>, which is also what \<open>%s\<close> prints.\<close>

fun py_str :: "ext \<Rightarrow> pyval \<Rightarrow> string" where
  "py_str e PNone = ''None''"
| "py_str e (PBool b) = (if b then ''True'' else ''False'')"
| "py_str e (PInt i) = format_d i"
| "py_str e (PStr s) = s"
| "py_str e (PDate y m d) = date_text y m d"
| "py_str e (PList xs) = repr_of e (PList xs)"
| "py_str e (PDict kvs) = repr_of e (PDict kvs)"

text \<open>
  The attributes of a \<open>TOSCAToHOT\<close> object: \<open>self_vnf\<close> is \<open>self.vnf\<close>, and so on. The
  client is passed where it is used.
\<close>

record tosca_to_hot =
  self_vnf :: pyval
  self_attributes :: pyval
  self_vnfd_yaml :: pyval
  self_unsupported_props :: "(string \<times> (string \<times> string) list) list"
  self_heat_template_yaml :: pyval
  self_monitoring_dict :: pyval
  self_fields :: pyval

section \<open>Parameter resolution\<close>

text \<open>
  \<open>'get_input' in str(value)\<close>. The text of a value shows every key and every string
  scalar inside it, each between quotes; the nine characters of the marker are letters and
  an underscore, which are printed as they are, and no other part of the text (numbers,
  \<open>None\<close>, \<open>True\<close>, \<open>False\<close>, dates, punctuation, escape sequences) can contribute to
  an occurrence. So the marker occurs in the text exactly when it occurs in a key or in a
  string scalar of the value.
\<close>

fun str_has_get_input :: "pyval \<Rightarrow> bool"
  and str_has_get_input_list :: "pyval list \<Rightarrow> bool"
  and str_has_get_input_items :: "(string \<times> pyval) list \<Rightarrow> bool" where
  "str_has_get_input (PStr s) = sublist ''get_input'' s"
| "str_has_get_input (PList xs) = str_has_get_input_list xs"
| "str_has_get_input (PDict kvs) = str_has_get_input_items kvs"
| "str_has_get_input PNone = False"
| "str_has_get_input (PBool b) = False"
| "str_has_get_input (PInt i) = False"
| "str_has_get_input (PDate y m d) = False"
| "str_has_get_input_list [] = False"
| "str_has_get_input_list (x # xs) = (str_has_get_input x \<or> str_has_get_input_list xs)"
| "str_has_get_input_items [] = False"
| "str_has_get_input_items ((k, v) # kvs) =
     (sublist ''get_input'' k \<or> str_has_get_input v \<or> str_has_get_input_items kvs)"

text \<open>
  \<open>_update_params(original, paramvalues, match)\<close> walks the items of \<open>original\<close> and
  assigns into it while it walks. The result is the mapping as the call leaves it, also when
  it raises, and the exception raised, if any: the entries before the one that raises have
  been processed, the entries after it have not been visited.
\<close>

function update_params ::
    "(string \<times> pyval) list \<Rightarrow> pyval \<Rightarrow> bool \<Rightarrow> (string \<times> pyval) list \<times> error option"
  and update_entry :: "string \<Rightarrow> pyval \<Rightarrow> pyval \<Rightarrow> bool \<Rightarrow> pyval \<times> error option" where
  "update_params [] paramvalues match = ([], None)"
| "update_params ((key, value) # rest) paramvalues match =
     (case update_entry key value paramvalues match of
        (value', Some e) \<Rightarrow> ((key, value') # rest, Some e)
      | (value', None) \<Rightarrow>
          (case update_params rest paramvalues match of
             (rest', r) \<Rightarrow> ((key, value') # rest', r)))"
| "update_entry key (PDict value) paramvalues match =
     (if \<not> str_has_get_input (PDict value) then (PDict value, None)
      else if \<not> match then
        (case py_in (PStr key) paramvalues of
           Inl e \<Rightarrow> (PDict value, Some e)
         | Inr False \<Rightarrow> (PDict value, Some (InputValuesMissing key))
         | Inr True \<Rightarrow>
            (case getitem paramvalues key of
               Inl e \<Rightarrow> (PDict value, Some e)
             | Inr sub \<Rightarrow>
                (case py_in (PStr ''param'') sub of
                   Inl e \<Rightarrow> (PDict value, Some e)
                 | Inr True \<Rightarrow>
                    (case getitem sub ''param'' of
                       Inl e \<Rightarrow> (PDict value, Some e)
                     | Inr p \<Rightarrow>
                        (case update_params value p True of (value', r) \<Rightarrow> (PDict value', r)))
                 | Inr False \<Rightarrow>
                    (case update_params value sub False of (value', r) \<Rightarrow> (PDict value', r)))))
      else if has_key value ''get_input'' then
        (case getitem (PDict value) ''get_input'' of
           Inl e \<Rightarrow> (PDict value, Some e)
         | Inr name \<Rightarrow>
            (case py_in name paramvalues of
               Inl e \<Rightarrow> (PDict value, Some e)
             | Inr False \<Rightarrow> (PDict value, Some (InputValuesMissing key))
             | Inr True \<Rightarrow>
                (case py_getitem paramvalues name of
                   Inl e \<Rightarrow> (PDict value, Some e)
                 | Inr v \<Rightarrow> (v, None))))
      else (case update_params value paramvalues True of (value', r) \<Rightarrow> (PDict value', r)))"
| "update_entry key PNone paramvalues match = (PNone, None)"
| "update_entry key (PBool b) paramvalues match = (PBool b, None)"
| "update_entry key (PInt i) paramvalues match = (PInt i, None)"
| "update_entry key (PStr s) paramvalues match = (PStr s, None)"
| "update_entry key (PDate y m d) paramvalues match = (PDate y m d, None)"
| "update_entry key (PList xs) paramvalues match = (PList xs, None)"
  by pat_completeness auto
termination
  by (relation "measure (\<lambda>x. case x of
        Inl (original, paramvalues, match) \<Rightarrow> size_list (size_prod (\<lambda>k. 0) size) original
      | Inr (key, value, paramvalues, match) \<Rightarrow> size value)") auto

text \<open>
  \<open>_process_parameterized_input(dev_attrs, vnfd_dict)\<close>. The descriptor is returned as the
  call leaves it, with the exception raised, if any. Iterating the items of a descriptor
  that is not a mapping is an attribute error.
\<close>

definition process_parameterized_input :: "ext \<Rightarrow> pyval \<Rightarrow> pyval \<Rightarrow> pyval \<times> error option" where
  "process_parameterized_input e dev_attrs vnfd_dict =
     (case py_pop dev_attrs ''param_values'' PNone of
        Inl err \<Rightarrow> (vnfd_dict, Some err)
      | Inr (param_vattrs_yaml, dev_attrs') \<Rightarrow>
          if py_truthy param_vattrs_yaml then
            (case yaml_load e param_vattrs_yaml of
               None \<Rightarrow> (vnfd_dict, Some ParamYAMLNotWellFormed)
             | Some param_vattrs_dict \<Rightarrow>
                (case vnfd_dict of
                   PDict original \<Rightarrow>
                     (case update_params original param_vattrs_dict False of
                        (original', r) \<Rightarrow> (PDict original', r))
                 | _ \<Rightarrow> (vnfd_dict, Some AttributeError)))
          else (vnfd_dict, Some ParamYAMLInputMissing))"

section \<open>Port synthesis\<close>

definition HEAT_VERSION_INCOMPATIBILITY_MAP :: "(string \<times> (string \<times> string) list) list" where
  "HEAT_VERSION_INCOMPATIBILITY_MAP =
     [(''OS::Neutron::Port'', [(''port_security_enabled'', ''value_specs'')])]"

text \<open>
  \<open>_get_unsupported_resource_props(heat_client)\<close>; the client is its method
  \<open>resource_attr_support\<close>. For every resource type of the map, the whole property
  mapping is recorded as soon as one of its properties is not supported.
\<close>

definition get_unsupported_resource_props ::
  "(string \<Rightarrow> string \<Rightarrow> bool) \<Rightarrow> tosca_to_hot \<Rightarrow> tosca_to_hot" where
  "get_unsupported_resource_props resource_attr_support self =
     self\<lparr>self_unsupported_props :=
       foldl (\<lambda>unsupported_resource_props (res, prop_dict).
                let unsupported_props' =
                      foldl (\<lambda>acc (prop, val).
                               if \<not> resource_attr_support res prop then dict_update acc prop_dict
                               else acc) [] prop_dict
                in if unsupported_props' \<noteq> [] then set_key res unsupported_props' unsupported_resource_props
                   else unsupported_resource_props)
             [] HEAT_VERSION_INCOMPATIBILITY_MAP\<rparr>"

definition make_port_dict :: "tosca_to_hot \<Rightarrow> pyval" where
  "make_port_dict self =
     (let properties =
            (if self_unsupported_props self \<noteq> []
             then [(''value_specs'', PDict [(''port_security_enabled'', PBool False)])]
             else [(''port_security_enabled'', PBool False)]);
          properties =
            (if has_key properties ''fixed_ips'' then properties
             else set_key ''fixed_ips'' (PList []) properties)
      in PDict [(''type'', PStr ''OS::Neutron::Port''), (''properties'', PDict properties)])"

definition make_mgmt_outputs_dict :: "string \<Rightarrow> string \<Rightarrow> pyval \<Rightarrow> error + pyval" where
  "make_mgmt_outputs_dict vdu_id port template_dict =
     (let mgmt_ip = ''mgmt_ip-'' @ vdu_id in
      ebind (getitem template_dict ''outputs'') (\<lambda>outputs_dict.
      ebind (setitem outputs_dict mgmt_ip
               (PDict [(''description'', PStr ''management ip address''),
                       (''value'', PDict [(''get_attr'',
                          PList [PStr port, PStr ''fixed_ips'', PInt 0, PStr ''ip_address''])])]))
            (\<lambda>outputs_dict.
      setitem template_dict ''outputs'' outputs_dict)))"

text \<open>\<open>xs.append(v)\<close> for each \<open>v\<close> of \<open>vs\<close>: a method of a sequence only.\<close>

fun py_append_all :: "pyval \<Rightarrow> pyval list \<Rightarrow> error + pyval" where
  "py_append_all xs [] = Inr xs"
| "py_append_all (PList xs) vs = Inr (PList (xs @ vs))"
| "py_append_all c vs = Inl AttributeError"

text \<open>
  \<open>_handle_port_creation\<close>. The unit identity is a key of the unit collection, a string;
  the network identity is printed with \<open>%s\<close>. The properties of the interface spec are
  merged into the port's properties last.
\<close>

definition handle_port_creation ::
  "ext \<Rightarrow> tosca_to_hot \<Rightarrow> string \<Rightarrow> pyval \<Rightarrow> pyval \<Rightarrow> pyval list \<Rightarrow> pyval \<Rightarrow> error + (string \<times> pyval)" where
  "handle_port_creation e self vdu_id network_param template_dict ip_list mgmt_flag =
     ebind (getitem network_param ''network'') (\<lambda>network.
     let port = vdu_id @ ''-'' @ py_str e network @ ''-port'';
         port_dict = make_port_dict self
     in
     ebind (if py_truthy mgmt_flag then make_mgmt_outputs_dict vdu_id port template_dict
            else Inr template_dict) (\<lambda>template_dict.
     ebind (getitem port_dict ''properties'') (\<lambda>properties.
     ebind (getitem properties ''fixed_ips'') (\<lambda>fixed_ips.
     ebind (py_append_all fixed_ips (map (\<lambda>ip. PDict [(''ip_address'', ip)]) ip_list)) (\<lambda>fixed_ips.
     ebind (setitem properties ''fixed_ips'' fixed_ips) (\<lambda>properties.
     ebind (py_items properties) (\<lambda>properties.
     ebind (py_update properties network_param) (\<lambda>properties.
     ebind (setitem port_dict ''properties'' (PDict properties)) (\<lambda>port_dict.
     ebind (getitem template_dict ''resources'') (\<lambda>resources.
     ebind (setitem resources port port_dict) (\<lambda>resources.
     ebind (setitem template_dict ''resources'' resources) (\<lambda>template_dict.
       Inr (port, template_dict)))))))))))))"

text \<open>
  The body of the loop of \<open>_process_vdu_network_interfaces\<close> for one interface spec. The
  result is the entry appended to the networks list, the interface spec as the pops leave
  it, and the template.
\<close>

definition process_network_param ::
  "ext \<Rightarrow> tosca_to_hot \<Rightarrow> string \<Rightarrow> pyval \<Rightarrow> pyval \<Rightarrow> error + (pyval \<times> pyval \<times> pyval)" where
  "process_network_param e self vdu_id network_param template_dict =
     ebind (py_in (PStr ''addresses'') network_param) (\<lambda>has_addresses.
     ebind (if has_addresses then
              ebind (py_pop network_param ''addresses'' (PList [])) (\<lambda>(ip_list, network_param).
              case ip_list of
                PList ips \<Rightarrow>
                  ebind (py_pop network_param ''management'' (PBool False)) (\<lambda>(mgmt_flag, network_param).
                  ebind (handle_port_creation e self vdu_id network_param template_dict ips mgmt_flag)
                    (\<lambda>(port, template_dict). Inr (Some port, network_param, template_dict)))
              | _ \<Rightarrow> Inl IPAddrInvalidInput)
            else Inr (None, network_param, template_dict)) (\<lambda>(port, network_param, template_dict).
     ebind (py_pop network_param ''management'' (PBool False)) (\<lambda>(flag, network_param).
     ebind (if py_truthy flag then
              ebind (handle_port_creation e self vdu_id network_param template_dict [] (PBool True))
                (\<lambda>(port, template_dict). Inr (Some port, template_dict))
            else Inr (port, template_dict)) (\<lambda>(port, template_dict).
     case port of
       Some p \<Rightarrow>
         Inr (PDict [(''port'', PDict [(''get_resource'', PStr p)])], network_param, template_dict)
     | None \<Rightarrow>
         ebind (py_items network_param) (\<lambda>items.
           Inr (PDict items, network_param, template_dict))))))"

text \<open>
  The loop over the interface specs: the networks list, the specs as they are left, the
  template.
\<close>

fun process_network_params ::
  "ext \<Rightarrow> tosca_to_hot \<Rightarrow> string \<Rightarrow> (string \<times> pyval) list \<Rightarrow> pyval list \<Rightarrow> pyval \<Rightarrow>
     error + (pyval list \<times> (string \<times> pyval) list \<times> pyval)" where
  "process_network_params e self vdu_id [] networks_list template_dict =
     Inr (networks_list, [], template_dict)"
| "process_network_params e self vdu_id ((name, network_param) # rest) networks_list template_dict =
     (case process_network_param e self vdu_id network_param template_dict of
        Inl err \<Rightarrow> Inl err
      | Inr (entry, network_param', template_dict') \<Rightarrow>
          (case process_network_params e self vdu_id rest (networks_list @ [entry]) template_dict' of
             Inl err \<Rightarrow> Inl err
           | Inr (networks_list', rest', template_dict'') \<Rightarrow>
               Inr (networks_list', (name, network_param') # rest', template_dict'')))"

text \<open>
  \<open>_process_vdu_network_interfaces\<close>. In the source \<open>properties\<close> is the properties
  mapping of the unit's resource inside \<open>template_dict\<close>; here it is passed and returned
  beside the template, and the caller stores it into the resource.
\<close>

definition process_vdu_network_interfaces ::
  "ext \<Rightarrow> tosca_to_hot \<Rightarrow> string \<Rightarrow> pyval \<Rightarrow> (string \<times> pyval) list \<Rightarrow> pyval \<Rightarrow>
     error + (pyval \<times> (string \<times> pyval) list \<times> pyval)" where
  "process_vdu_network_interfaces e self vdu_id vdu_dict properties template_dict =
     (let properties = set_key ''networks'' (PList []) properties in
      ebind (getitem vdu_dict ''network_interfaces'') (\<lambda>network_interfaces.
      ebind (py_items network_interfaces) (\<lambda>interfaces.
      ebind (process_network_params e self vdu_id interfaces [] template_dict)
        (\<lambda>(networks_list, interfaces', template_dict).
      ebind (setitem vdu_dict ''network_interfaces'' (PDict interfaces')) (\<lambda>vdu_dict.
        Inr (vdu_dict, set_key ''networks'' (PList networks_list) properties, template_dict))))))"

section \<open>Legacy descriptor translation\<close>

text \<open>\<open>yaml.load(HEAT_TEMPLATE_BASE)\<close>: the version line is loaded as a date.\<close>

definition heat_template_base :: pyval where
  "heat_template_base = PDict [(''heat_template_version'', PDate 2013 5 23)]"

text \<open>\<open>for key, value in metadata.items(): metadata[key] = value[:255]\<close>.\<close>

fun truncate_values :: "(string \<times> pyval) list \<Rightarrow> error + (string \<times> pyval) list" where
  "truncate_values [] = Inr []"
| "truncate_values ((key, value) # rest) =
     (case py_slice255 value of
        Inl err \<Rightarrow> Inl err
      | Inr v \<Rightarrow> (case truncate_values rest of Inl err \<Rightarrow> Inl err | Inr rest' \<Rightarrow> Inr ((key, v) # rest')))"

text \<open>
  The body of the loop of \<open>_generate_hot_from_legacy\<close> for one unit, in two parts, the
  second of which is given statement by statement. The first part (the statements up to the call of \<open>_process_vdu_network_interfaces\<close>) creates
  the unit's resource and its image, flavor and networks properties. \<open>properties\<close> is the
  properties mapping of that resource: it is carried beside the template and stored into the
  resource where the template text is produced (in the source it is the resource's own
  mapping all along, and no port takes the unit's name).
\<close>

definition legacy_vdu_create ::
  "ext \<Rightarrow> tosca_to_hot \<Rightarrow> pyval \<Rightarrow> string \<Rightarrow> pyval \<Rightarrow>
     error + (pyval \<times> (string \<times> pyval) list \<times> pyval)" where
  "legacy_vdu_create e self template_dict vdu_id vdu_dict =
     ebind (py_get template_dict ''resources'' (PDict [])) (\<lambda>resources.
     ebind (setitem resources vdu_id (PDict [(''type'', PStr ''OS::Nova::Server'')])) (\<lambda>resources.
     ebind (setitem template_dict ''resources'' resources) (\<lambda>template_dict.
     ebind (getitem vdu_dict ''vm_image'') (\<lambda>image.
     ebind (getitem vdu_dict ''instance_type'') (\<lambda>flavor.
     let properties = set_key ''flavor'' flavor (set_key ''image'' image []) in
     ebind (py_in (PStr ''network_interfaces'') vdu_dict) (\<lambda>has_interfaces.
       if has_interfaces
       then process_vdu_network_interfaces e self vdu_id vdu_dict properties template_dict
       else Inr (vdu_dict, properties, template_dict)))))))"

text \<open>
  The second part, statement by statement. User data: both fields are copied, a lone field
  is an error.
\<close>

definition legacy_user_data :: "pyval \<Rightarrow> (string \<times> pyval) list \<Rightarrow> error + (string \<times> pyval) list" where
  "legacy_user_data vdu_dict properties =
     ebind (py_in (PStr ''user_data'') vdu_dict) (\<lambda>has_user_data.
     ebind (py_in (PStr ''user_data_format'') vdu_dict) (\<lambda>has_user_data_format.
       if has_user_data \<and> has_user_data_format then
         ebind (getitem vdu_dict ''user_data_format'') (\<lambda>user_data_format.
         ebind (getitem vdu_dict ''user_data'') (\<lambda>user_data.
           Inr (set_key ''user_data'' user_data
                 (set_key ''user_data_format'' user_data_format properties))))
       else if has_user_data \<or> has_user_data_format then Inl UserDataFormatNotFound
       else Inr properties))"

text \<open>The placement zone.\<close>

definition legacy_placement :: "pyval \<Rightarrow> (string \<times> pyval) list \<Rightarrow> error + (string \<times> pyval) list" where
  "legacy_placement vdu_dict properties =
     ebind (py_in (PStr ''placement_policy'') vdu_dict) (\<lambda>has_placement.
       if has_placement then
         ebind (getitem vdu_dict ''placement_policy'') (\<lambda>placement_policy.
         ebind (py_in (PStr ''availability_zone'') placement_policy) (\<lambda>has_zone.
           if has_zone then
             ebind (getitem placement_policy ''availability_zone'') (\<lambda>zone.
               Inr (set_key ''availability_zone'' zone properties))
           else Inr properties))
       else Inr properties)"

text \<open>The configuration drive and its metadata, every value cut to 255 elements.\<close>

definition legacy_config :: "pyval \<Rightarrow> (string \<times> pyval) list \<Rightarrow> error + (string \<times> pyval) list" where
  "legacy_config vdu_dict properties =
     ebind (py_in (PStr ''config'') vdu_dict) (\<lambda>has_config.
       if has_config then
         (let properties = set_key ''config_drive'' (PBool True) properties;
              metadata = (case map_of properties ''metadata'' of None \<Rightarrow> PDict [] | Some m \<Rightarrow> m)
          in
          ebind (getitem vdu_dict ''config'') (\<lambda>config.
          ebind (case metadata of PDict md \<Rightarrow> py_update md config | _ \<Rightarrow> Inl AttributeError) (\<lambda>md.
          ebind (truncate_values md) (\<lambda>md.
            Inr (set_key ''metadata'' (PDict md) properties)))))
       else Inr properties)"

text \<open>The key pair.\<close>

definition legacy_key_name :: "pyval \<Rightarrow> (string \<times> pyval) list \<Rightarrow> error + (string \<times> pyval) list" where
  "legacy_key_name vdu_dict properties =
     ebind (py_in (PStr ''key_name'') vdu_dict) (\<lambda>has_key_name.
       if has_key_name then
         ebind (getitem vdu_dict ''key_name'') (\<lambda>key_name.
           Inr (set_key ''key_name'' key_name properties))
       else Inr properties)"

text \<open>
  Monitoring: the old \<open>ping\<close>/\<open>respawn\<close> pair is rewritten in the unit, and a policy other than
  \<open>noop\<close> is stored in the monitoring document, whose \<open>vdus\<close> mapping is created at that
  point. The result is the unit and the monitoring document.
\<close>

definition legacy_monitoring ::
  "string \<Rightarrow> pyval \<Rightarrow> (string \<times> pyval) list \<Rightarrow> error + (pyval \<times> (string \<times> pyval) list)" where
  "legacy_monitoring vdu_id vdu_dict monitoring_dict =
     ebind (py_get vdu_dict ''monitoring_policy'' (PStr ''noop'')) (\<lambda>monitoring_policy.
     ebind (py_get vdu_dict ''failure_policy'' (PStr ''noop'')) (\<lambda>failure_policy.
     ebind (if py_eq monitoring_policy (PStr ''ping'') \<and> py_eq failure_policy (PStr ''respawn'') then
              ebind (setitem vdu_dict ''monitoring_policy''
                       (PDict [(''ping'', PDict [(''actions'', PDict [(''failure'', PStr ''respawn'')])])]))
                (\<lambda>vdu_dict.
              ebind (py_pop1 vdu_dict ''failure_policy'') (\<lambda>(popped, vdu_dict). Inr vdu_dict))
            else Inr vdu_dict) (\<lambda>vdu_dict.
       if \<not> py_eq monitoring_policy (PStr ''noop'') then
         (let monitoring_dict = set_key ''vdus'' (PDict []) monitoring_dict in
          ebind (getitem vdu_dict ''monitoring_policy'') (\<lambda>policy.
            Inr (vdu_dict, set_key ''vdus'' (PDict (set_key vdu_id policy [])) monitoring_dict)))
       else Inr (vdu_dict, monitoring_dict))))"

text \<open>The service type, passed upwards in the service record.\<close>

definition legacy_service_type :: "ext \<Rightarrow> pyval \<Rightarrow> string \<Rightarrow> pyval \<Rightarrow> error + pyval" where
  "legacy_service_type e vnf vdu_id vdu_dict =
     ebind (py_in (PStr ''service_type'') vdu_dict) (\<lambda>has_service_type.
       if has_service_type then
         ebind (py_get vnf ''attributes'' (PDict [])) (\<lambda>attrs.
         ebind (getitem vdu_dict ''service_type'') (\<lambda>service_type.
         ebind (setitem attrs vdu_id (PStr (json_dumps e (PDict [(''service_type'', service_type)]))))
           (\<lambda>attrs.
           setitem vnf ''attributes'' attrs)))
       else Inr vnf)"

text \<open>
  The second part as a whole, up to the template text: the new template, monitoring
  document, service record and text.
\<close>

definition legacy_vdu_fill ::
  "ext \<Rightarrow> (string \<times> pyval) list \<Rightarrow> pyval \<Rightarrow> string \<Rightarrow> pyval \<Rightarrow> (string \<times> pyval) list \<Rightarrow> pyval \<Rightarrow>
     error + (pyval \<times> (string \<times> pyval) list \<times> pyval \<times> pyval)" where
  "legacy_vdu_fill e monitoring_dict vnf vdu_id vdu_dict properties template_dict =
     ebind (legacy_user_data vdu_dict properties) (\<lambda>properties.
     ebind (legacy_placement vdu_dict properties) (\<lambda>properties.
     ebind (legacy_config vdu_dict properties) (\<lambda>properties.
     ebind (legacy_key_name vdu_dict properties) (\<lambda>properties.
     ebind (legacy_monitoring vdu_id vdu_dict monitoring_dict) (\<lambda>(vdu_dict, monitoring_dict).
     ebind (legacy_service_type e vnf vdu_id vdu_dict) (\<lambda>vnf.
     ebind (getitem template_dict ''resources'') (\<lambda>resources.
     ebind (setitem resources vdu_id
              (PDict [(''type'', PStr ''OS::Nova::Server''), (''properties'', PDict properties)]))
       (\<lambda>resources.
     ebind (setitem template_dict ''resources'' resources) (\<lambda>template_dict.
       Inr (template_dict, monitoring_dict, vnf,
            PStr (yaml_dump e template_dict)))))))))))"

text \<open>The whole body: the new template, monitoring document, service record and text.\<close>

definition legacy_vdu ::
  "ext \<Rightarrow> tosca_to_hot \<Rightarrow> pyval \<Rightarrow> (string \<times> pyval) list \<Rightarrow> pyval \<Rightarrow> string \<Rightarrow> pyval \<Rightarrow>
     error + (pyval \<times> (string \<times> pyval) list \<times> pyval \<times> pyval)" where
  "legacy_vdu e self template_dict monitoring_dict vnf vdu_id vdu_dict =
     ebind (legacy_vdu_create e self template_dict vdu_id vdu_dict)
       (\<lambda>(vdu_dict, properties, template_dict).
          legacy_vdu_fill e monitoring_dict vnf vdu_id vdu_dict properties template_dict)"

text \<open>
  The loop over the units. \<open>heat_template_yaml\<close> is a local variable that only the body
  binds: \<open>None\<close> while it is unbound.
\<close>

fun legacy_vdus ::
  "ext \<Rightarrow> tosca_to_hot \<Rightarrow> (string \<times> pyval) list \<Rightarrow> pyval \<Rightarrow> (string \<times> pyval) list \<Rightarrow> pyval \<Rightarrow>
     pyval option \<Rightarrow> error + (pyval \<times> (string \<times> pyval) list \<times> pyval \<times> pyval option)" where
  "legacy_vdus e self [] template_dict monitoring_dict vnf heat_template_yaml =
     Inr (template_dict, monitoring_dict, vnf, heat_template_yaml)"
| "legacy_vdus e self ((vdu_id, vdu_dict) # rest) template_dict monitoring_dict vnf heat_template_yaml =
     (case legacy_vdu e self template_dict monitoring_dict vnf vdu_id vdu_dict of
        Inl err \<Rightarrow> Inl err
      | Inr (template_dict', monitoring_dict', vnf', text) \<Rightarrow>
          legacy_vdus e self rest template_dict' monitoring_dict' vnf' (Some text))"

text \<open>
  \<open>_generate_hot_from_legacy(vnfd_dict, dev_attrs)\<close>: the object with its template text,
  its monitoring document and its service record set, or the exception raised.
\<close>

definition generate_hot_from_legacy ::
  "ext \<Rightarrow> tosca_to_hot \<Rightarrow> pyval \<Rightarrow> pyval \<Rightarrow> error + tosca_to_hot" where
  "generate_hot_from_legacy e self vnfd_dict dev_attrs =
     ebind (py_in (PStr ''template'') (self_fields self)) (\<lambda>has_template.
     if has_template then Inl AssertionError else
     ebind (py_in (PStr ''template_url'') (self_fields self)) (\<lambda>has_template_url.
     if has_template_url then Inl AssertionError else
     ebind (setitem heat_template_base ''outputs'' (PDict [])) (\<lambda>template_dict.
     ebind (py_in (PStr ''get_input'') (self_vnfd_yaml self)) (\<lambda>has_input.
     ebind (if has_input then
              (case process_parameterized_input e dev_attrs vnfd_dict of
                 (vnfd_dict', Some err) \<Rightarrow> Inl err
               | (vnfd_dict', None) \<Rightarrow> Inr vnfd_dict')
            else Inr vnfd_dict) (\<lambda>vnfd_dict.
     ebind (py_in (PStr ''description'') vnfd_dict) (\<lambda>has_description.
     ebind (if has_description then
              ebind (getitem vnfd_dict ''description'') (\<lambda>description.
                setitem template_dict ''description'' description)
            else Inr template_dict) (\<lambda>template_dict.
     ebind (py_get vnfd_dict ''vdus'' (PDict [])) (\<lambda>vdus.
     ebind (py_items vdus) (\<lambda>vdu_items.
     ebind (legacy_vdus e self vdu_items template_dict [] (self_vnf self) None)
       (\<lambda>(template_dict, monitoring_dict, vnf, heat_template_yaml).
     case heat_template_yaml of
       None \<Rightarrow> Inl UnboundLocalError
     | Some text \<Rightarrow>
         Inr (self\<lparr>self_vnf := vnf, self_heat_template_yaml := text,
                    self_monitoring_dict := PDict monitoring_dict\<rparr>)))))))))))"

section \<open>Scaling and alarm expansion\<close>

text \<open>
  The loop of \<open>_generate_hot_scaling\<close> over the policies: it stops at the first scaling
  policy and yields \<open>(resources, scaling_group_names)\<close>, both empty when there is none.
\<close>

fun scaling_policies_loop ::
  "string \<Rightarrow> pyval list \<Rightarrow> error + ((string \<times> pyval) list \<times> (string \<times> pyval) list)" where
  "scaling_policies_loop scale_resource_type [] = Inr ([], [])"
| "scaling_policies_loop scale_resource_type (policy_dict # rest) =
     (case first_item policy_dict of
        Inl err \<Rightarrow> Inl err
      | Inr (name, policy) \<Rightarrow>
          (case getitem policy ''type'' of
             Inl err \<Rightarrow> Inl err
           | Inr ty \<Rightarrow>
               if py_eq ty (PStr SCALING_POLICY) then
                 ebind (getitem policy ''properties'') (\<lambda>policy_prp.
                   convert_to_heat_scaling_policy policy_prp scale_resource_type name)
               else scaling_policies_loop scale_resource_type rest))"

text \<open>\<open>_generate_hot_scaling\<close>: \<open>(expansion needed, scaling_group_names, template_dict)\<close>.\<close>

definition generate_hot_scaling ::
  "pyval \<Rightarrow> string \<Rightarrow> error + (bool \<times> (string \<times> pyval) list \<times> pyval)" where
  "generate_hot_scaling vnfd_dict scale_resource_type =
     ebind (setitem heat_template_base ''description'' (PStr ''Tacker scaling template'')) (\<lambda>template_dict.
     ebind (setitem template_dict ''parameters'' (PDict [])) (\<lambda>template_dict.
     ebind (py_in (PStr ''policies'') vnfd_dict) (\<lambda>has_policies.
     ebind (if has_policies then
              ebind (getitem vnfd_dict ''policies'') (\<lambda>policies.
              ebind (py_iter policies) (\<lambda>policies.
                scaling_policies_loop scale_resource_type policies))
            else Inr ([], [])) (\<lambda>(resources, scaling_group_names).
     ebind (setitem template_dict ''resources'' (PDict resources)) (\<lambda>template_dict.
       Inr (resources \<noteq> [], scaling_group_names, template_dict))))))"

text \<open>
  \<open>_convert_to_heat_monitoring_prop\<close>: the properties of the alarm resource. The
  notification target is \<open>str(vnf['attributes'].get('alarm_url'))\<close>.
\<close>

definition convert_to_heat_monitoring_prop ::
  "ext \<Rightarrow> pyval \<Rightarrow> pyval \<Rightarrow> error + (string \<times> pyval) list" where
  "convert_to_heat_monitoring_prop e mon_policy vnf =
     ebind (first_item mon_policy) (\<lambda>(name, mon_policy_dict).
     ebind (getitem mon_policy_dict ''triggers'') (\<lambda>triggers.
     ebind (getitem triggers ''resize_compute'') (\<lambda>tpl_trigger_name.
     ebind (getitem tpl_trigger_name ''condition'') (\<lambda>tpl_condition.
     ebind (getitem tpl_trigger_name ''metrics'') (\<lambda>meter_name.
     ebind (getitem tpl_condition ''comparison_operator'') (\<lambda>comparison_operator.
     ebind (getitem tpl_condition ''period'') (\<lambda>period.
     ebind (getitem tpl_condition ''evaluations'') (\<lambda>evaluation_periods.
     ebind (getitem tpl_condition ''method'') (\<lambda>statistic.
     ebind (getitem tpl_condition ''constraint'') (\<lambda>description.
     ebind (getitem tpl_condition ''threshold'') (\<lambda>threshold.
     let properties =
           [(''meter_name'', meter_name),
            (''comparison_operator'', comparison_operator),
            (''period'', period),
            (''evaluation_periods'', evaluation_periods),
            (''statistic'', statistic),
            (''description'', description),
            (''threshold'', threshold)]
     in
     ebind (getitem vnf ''attributes'') (\<lambda>attrs.
     ebind (py_get attrs ''alarm_url'' PNone) (\<lambda>url.
     let alarm_url = py_str e url in
       if alarm_url \<noteq> [] then
         Inr (set_key ''alarm_actions'' (PList [PStr alarm_url]) properties)
       else Inr properties)))))))))))))"

text \<open>\<open>sub_heat_dict['resources']['VDU1']['properties']['metadata'] = metadata_dict\<close>.\<close>

definition set_vdu1_metadata :: "pyval \<Rightarrow> pyval \<Rightarrow> error + pyval" where
  "set_vdu1_metadata sub_heat_dict metadata_dict =
     ebind (getitem sub_heat_dict ''resources'') (\<lambda>resources.
     ebind (getitem resources ''VDU1'') (\<lambda>vdu1.
     ebind (getitem vdu1 ''properties'') (\<lambda>properties.
     ebind (setitem properties ''metadata'' metadata_dict) (\<lambda>properties.
     ebind (setitem vdu1 ''properties'' properties) (\<lambda>vdu1.
     ebind (setitem resources ''VDU1'' vdu1) (\<lambda>resources.
       setitem sub_heat_dict ''resources'' resources))))))"

text \<open>
  The loop of \<open>_convert_to_heat_monitoring_resource\<close> over the policies: at the first
  scaling policy it tags the unit in the sub-template and the alarm's properties, and
  stops. It yields the alarm's properties and the sub-template.
\<close>

fun correlation_loop ::
  "pyval \<Rightarrow> pyval list \<Rightarrow> (string \<times> pyval) list \<Rightarrow> pyval \<Rightarrow> error + ((string \<times> pyval) list \<times> pyval)" where
  "correlation_loop vnf [] properties sub_heat_dict = Inr (properties, sub_heat_dict)"
| "correlation_loop vnf (policies # rest) properties sub_heat_dict =
     (case first_item policies of
        Inl err \<Rightarrow> Inl err
      | Inr (policy_name, policy_dt) \<Rightarrow>
          (case getitem policy_dt ''type'' of
             Inl err \<Rightarrow> Inl err
           | Inr ty \<Rightarrow>
               if py_eq ty (PStr SCALING_POLICY) then
                 ebind (getitem vnf ''id'') (\<lambda>vnf_id.
                 let metadata_dict = PDict [(''metering.vnf_id'', vnf_id)] in
                 ebind (set_vdu1_metadata sub_heat_dict metadata_dict) (\<lambda>sub_heat_dict.
                 ebind (getitem vnf ''id'') (\<lambda>vnf_id.
                 let matching_metadata_dict = PDict [(''metadata.user_metadata.vnf_id'', vnf_id)] in
                   Inr (set_key ''matching_metadata'' matching_metadata_dict properties,
                        sub_heat_dict))))
               else correlation_loop vnf rest properties sub_heat_dict))"

text \<open>\<open>_convert_to_heat_monitoring_resource\<close>: the alarm resource and the sub-template.\<close>

definition convert_to_heat_monitoring_resource ::
  "ext \<Rightarrow> pyval \<Rightarrow> pyval \<Rightarrow> pyval \<Rightarrow> pyval \<Rightarrow> error + (pyval \<times> pyval)" where
  "convert_to_heat_monitoring_resource e mon_policy vnf sub_heat_dict topology_tpl_dict =
     ebind (convert_to_heat_monitoring_prop e mon_policy vnf) (\<lambda>properties.
     ebind (py_in (PStr ''policies'') topology_tpl_dict) (\<lambda>has_policies.
     ebind (if has_policies then
              ebind (getitem topology_tpl_dict ''policies'') (\<lambda>policies.
              ebind (py_iter policies) (\<lambda>policies.
                correlation_loop vnf policies properties sub_heat_dict))
            else Inr (properties, sub_heat_dict)) (\<lambda>(properties, sub_heat_dict).
       Inr (PDict [(''type'', PStr ''OS::Aodh::Alarm''), (''properties'', PDict properties)],
            sub_heat_dict))))"

text \<open>\<open>heat_dict['resources'].update(alarm_resource)\<close>.\<close>

definition update_resources :: "pyval \<Rightarrow> (string \<times> pyval) list \<Rightarrow> error + pyval" where
  "update_resources heat_dict alarm_resource =
     ebind (getitem heat_dict ''resources'') (\<lambda>resources.
     case resources of
       PDict rs \<Rightarrow> setitem heat_dict ''resources'' (PDict (dict_update rs alarm_resource))
     | _ \<Rightarrow> Inl AttributeError)"

text \<open>
  The loop of \<open>_generate_hot_alarm_resource\<close> over the policies: it stops at the first
  alarming policy and yields \<open>(is_enabled_alarm, alarm_resource, heat_dict, sub_heat_dict)\<close>.
\<close>

fun alarm_policies_loop ::
  "ext \<Rightarrow> pyval \<Rightarrow> pyval \<Rightarrow> pyval list \<Rightarrow> pyval \<Rightarrow> pyval \<Rightarrow>
     error + (bool \<times> (string \<times> pyval) list \<times> pyval \<times> pyval)" where
  "alarm_policies_loop e vnf topology_tpl_dict [] heat_dict sub_heat_dict =
     Inr (False, [], heat_dict, sub_heat_dict)"
| "alarm_policies_loop e vnf topology_tpl_dict (policy_dict # rest) heat_dict sub_heat_dict =
     (case first_item policy_dict of
        Inl err \<Rightarrow> Inl err
      | Inr (name, policy_tpl_dict) \<Rightarrow>
          (case getitem policy_tpl_dict ''type'' of
             Inl err \<Rightarrow> Inl err
           | Inr ty \<Rightarrow>
               if py_eq ty (PStr ALARMING_POLICY) then
                 ebind (convert_to_heat_monitoring_resource e policy_dict vnf sub_heat_dict
                          topology_tpl_dict) (\<lambda>(mon_policy_hot, sub_heat_dict).
                 let alarm_resource = set_key name mon_policy_hot [] in
                 ebind (update_resources heat_dict alarm_resource) (\<lambda>heat_dict.
                   Inr (True, alarm_resource, heat_dict, sub_heat_dict)))
               else alarm_policies_loop e vnf topology_tpl_dict rest heat_dict sub_heat_dict))"

text \<open>
  \<open>_generate_hot_alarm_resource\<close>:
  \<open>(is_enabled_alarm, alarm_resource, sub_heat_tpl_yaml)\<close> and the object, whose template
  text it rewrites.
\<close>

definition generate_hot_alarm_resource ::
  "ext \<Rightarrow> tosca_to_hot \<Rightarrow> pyval \<Rightarrow> error + (bool \<times> (string \<times> pyval) list \<times> pyval \<times> tosca_to_hot)" where
  "generate_hot_alarm_resource e self topology_tpl_dict =
     ebind (simple_ordered_parse e (self_heat_template_yaml self)) (\<lambda>heat_dict.
     let sub_heat_dict = heat_dict in
     ebind (py_in (PStr ''policies'') topology_tpl_dict) (\<lambda>has_policies.
     ebind (if has_policies then
              ebind (getitem topology_tpl_dict ''policies'') (\<lambda>policies.
              ebind (py_iter policies) (\<lambda>policies.
                alarm_policies_loop e (self_vnf self) topology_tpl_dict policies heat_dict sub_heat_dict))
            else Inr (False, [], heat_dict, sub_heat_dict))
       (\<lambda>(is_enabled_alarm, alarm_resource, heat_dict, sub_heat_dict).
       Inr (is_enabled_alarm, alarm_resource, PStr (yaml_dump e sub_heat_dict),
            self\<lparr>self_heat_template_yaml := PStr (yaml_dump e heat_dict)\<rparr>))))"

section \<open>Final assembly\<close>

text \<open>\<open>vnf['attributes'][key] = value\<close>.\<close>

definition set_attribute :: "pyval \<Rightarrow> string \<Rightarrow> pyval \<Rightarrow> error + pyval" where
  "set_attribute vnf key v =
     ebind (getitem vnf ''attributes'') (\<lambda>attrs.
     ebind (setitem attrs key v) (\<lambda>attrs.
       setitem vnf ''attributes'' attrs))"

text \<open>\<open>_handle_scaling(vnfd_dict)\<close>: the object as the call leaves it.\<close>

definition handle_scaling :: "ext \<Rightarrow> tosca_to_hot \<Rightarrow> pyval \<Rightarrow> error + tosca_to_hot" where
  "handle_scaling e self vnfd_dict =
     (let vnf = self_vnf self in
      ebind (getitem vnfd_dict ''topology_template'') (\<lambda>topology_template.
      ebind (generate_hot_scaling topology_template ''scaling.yaml'')
        (\<lambda>(is_scaling_needed, scaling_group_names, main_dict).
      ebind (generate_hot_alarm_resource e self topology_template)
        (\<lambda>(is_enabled_alarm, alarm_resource, sub_heat_tpl_yaml, self).
      ebind (if is_enabled_alarm \<and> \<not> is_scaling_needed
             then setitem (self_fields self) ''template'' (self_heat_template_yaml self)
             else Inr (self_fields self)) (\<lambda>fields.
      if is_scaling_needed then
        ebind (if is_enabled_alarm then update_resources main_dict alarm_resource
               else Inr main_dict) (\<lambda>main_dict.
        let main_yaml = PStr (yaml_dump e main_dict) in
        ebind (setitem fields ''template'' main_yaml) (\<lambda>fields.
        ebind (setitem fields ''files''
                 (PDict [(''scaling.yaml'',
                          if is_enabled_alarm then sub_heat_tpl_yaml
                          else self_heat_template_yaml self)])) (\<lambda>fields.
        ebind (set_attribute vnf ''heat_template'' main_yaml) (\<lambda>vnf.
        ebind (set_attribute vnf ''scaling.yaml'' (self_heat_template_yaml self)) (\<lambda>vnf.
        ebind (set_attribute vnf ''scaling_group_names''
                 (PStr (json_dumps e (PDict scaling_group_names)))) (\<lambda>vnf.
          Inr (self\<lparr>self_vnf := vnf, self_fields := fields\<rparr>)))))))
      else
        ebind (getitem vnf ''attributes'') (\<lambda>attrs.
        ebind (py_get attrs ''heat_template'' PNone) (\<lambda>persisted.
        if \<not> py_truthy persisted then
          ebind (getitem fields ''template'') (\<lambda>template.
          ebind (set_attribute vnf ''heat_template'' template) (\<lambda>vnf.
            Inr (self\<lparr>self_vnf := vnf, self_fields := fields\<rparr>)))
        else Inr (self\<lparr>self_vnf := vnf, self_fields := fields\<rparr>))))))))"

section \<open>Observations\<close>

text \<open>The value found in a document by following a path of keys.\<close>

fun py_path :: "pyval \<Rightarrow> string list \<Rightarrow> pyval option" where
  "py_path v [] = Some v"
| "py_path (PDict kvs) (k # ks) = (case map_of kvs k of None \<Rightarrow> None | Some v \<Rightarrow> py_path v ks)"
| "py_path v (k # ks) = None"

text \<open>
  The \<open>scaling_adjustment\<close> of the scale-out (\<open>action = ''out''\<close>) or scale-in policy
  resource in the result of \<open>convert_to_heat_scaling_policy\<close>.
\<close>

definition scaling_adjustment_of ::
  "string \<Rightarrow> string \<Rightarrow> error + ((string \<times> pyval) list \<times> (string \<times> pyval) list) \<Rightarrow> pyval option" where
  "scaling_adjustment_of action name result =
     (case result of
        Inl err \<Rightarrow> None
      | Inr (resources, scaling_group_names) \<Rightarrow>
          py_path (PDict resources)
            [get_scaling_policy_name action name, ''properties'', ''scaling_adjustment''])"

text \<open>The scaling policy of the end-to-end scenario, with increment 1.\<close>

definition example_policy_prp :: pyval where
  "example_policy_prp =
     PDict [(''min_instances'', PInt 1), (''max_instances'', PInt 3),
            (''default_instances'', PInt 1), (''cooldown'', PInt 60),
            (''increment'', PInt 1), (''targets'', PList [PStr ''VDU1''])]"

subsection \<open>Example inputs\<close>

text \<open>
  Stand-ins for the external libraries, and a translator object for a service record
  \<open>vnf-1\<close> with no attributes, a descriptor text without placeholders, no unsupported
  property and no caller-supplied fields.
\<close>

definition example_ext :: ext where
  "example_ext =
     \<lparr>yaml_dump = (\<lambda>d. ''<yaml>''), yaml_load = (\<lambda>t. None),
      simple_ordered_parse = (\<lambda>t. Inl ExternalError), json_dumps = (\<lambda>d. ''<json>''),
      repr_of = (\<lambda>d. ''<repr>'')\<rparr>"

definition example_self :: tosca_to_hot where
  "example_self =
     \<lparr>self_vnf = PDict [(''id'', PStr ''vnf-1''), (''attributes'', PDict [])],
      self_attributes = PDict [], self_vnfd_yaml = PStr ''vdus: ...'',
      self_unsupported_props = [], self_heat_template_yaml = PNone,
      self_monitoring_dict = PNone, self_fields = PDict []\<rparr>"

text \<open>A legacy descriptor with two units, each with the monitoring policy \<open>ping\<close>.\<close>

definition two_monitored_vdus :: pyval where
  "two_monitored_vdus =
     PDict [(''vdus'', PDict
       [(''vdu1'', PDict [(''vm_image'', PStr ''img1''), (''instance_type'', PStr ''m1.small''),
                          (''monitoring_policy'', PStr ''ping'')]),
        (''vdu2'', PDict [(''vm_image'', PStr ''img2''), (''instance_type'', PStr ''m1.small''),
                          (''monitoring_policy'', PStr ''ping'')])])]"

text \<open>An alarming policy, as one entry of a topology's policy list.\<close>

definition example_alarm_policy :: pyval where
  "example_alarm_policy =
     PDict [(''vdu_cpu_usage_monitoring_policy'', PDict
       [(''type'', PStr ''tosca.policies.tacker.Alarming''),
        (''triggers'', PDict [(''resize_compute'', PDict
           [(''event_type'', PDict []),
            (''metrics'', PStr ''cpu_util''),
            (''condition'', PDict
               [(''threshold'', PInt 50),
                (''constraint'', PStr ''utilization greater_than 50%''),
                (''period'', PInt 65),
                (''evaluations'', PInt 1),
                (''method'', PStr ''avg''),
                (''comparison_operator'', PStr ''gt'')])])])])]"

text \<open>
  A legacy descriptor with two placeholders in one unit, caller-supplied values that give
  the first of them only, a loader that yields these values, and a translator object whose
  descriptor text has a placeholder.
\<close>

definition placeholder_descriptor :: "(string \<times> pyval) list" where
  "placeholder_descriptor =
     [(''vdus'', PDict [(''vdu1'', PDict
        [(''vm_image'', PDict [(''get_input'', PStr ''image'')]),
         (''instance_type'', PDict [(''get_input'', PStr ''flavor'')])])])]"

definition image_only_values :: pyval where
  "image_only_values =
     PDict [(''vdus'', PDict [(''vdu1'', PDict [(''param'', PDict [(''image'', PStr ''cirros'')])])])]"

definition image_only_ext :: ext where
  "image_only_ext = example_ext\<lparr>yaml_load := (\<lambda>t. Some image_only_values)\<rparr>"

text \<open>Caller-supplied values that have no entry for the unit collection, and their loader.\<close>

definition other_only_values :: pyval where
  "other_only_values = PDict [(''other'', PInt 1)]"

definition other_only_ext :: ext where
  "other_only_ext = example_ext\<lparr>yaml_load := (\<lambda>t. Some other_only_values)\<rparr>"

definition placeholder_self :: tosca_to_hot where
  "placeholder_self = example_self\<lparr>self_vnfd_yaml := PStr ''vm_image: {get_input: image}''\<rparr>"

text \<open>The number of resources of a template.\<close>

definition num_resources :: "pyval \<Rightarrow> nat" where
  "num_resources template_dict =
     (case py_path template_dict [''resources''] of Some (PDict rs) \<Rightarrow> length rs | _ \<Rightarrow> 0)"

text \<open>A property of the port resource in the result of \<open>handle_port_creation\<close>.\<close>

definition port_property :: "error + (string \<times> pyval) \<Rightarrow> string \<Rightarrow> pyval option" where
  "port_property result key =
     (case result of
        Inl err \<Rightarrow> None
      | Inr (port, template_dict) \<Rightarrow> py_path template_dict [''resources'', port, ''properties'', key])"


text \<open>
  Interface specs: one with an address list and a true management flag, one that sets the
  port security property itself, one with a network only. A template with no output and no
  resource. A client for which no property is supported.
\<close>

definition both_triggers_spec :: pyval where
  "both_triggers_spec =
     PDict [(''network'', PStr ''net1''), (''addresses'', PList [PStr ''10.0.0.5'']),
            (''management'', PBool True)]"

definition empty_template :: pyval where
  "empty_template = PDict [(''outputs'', PDict []), (''resources'', PDict [])]"

definition overriding_spec :: pyval where
  "overriding_spec = PDict [(''network'', PStr ''net1''), (''port_security_enabled'', PBool True)]"

definition nothing_supported :: "string \<Rightarrow> string \<Rightarrow> bool" where
  "nothing_supported res prop = False"

definition plain_spec :: pyval where
  "plain_spec = PDict [(''network'', PStr ''net1'')]"

text \<open>A client for which every property is supported.\<close>

definition everything_supported :: "string \<Rightarrow> string \<Rightarrow> bool" where
  "everything_supported res prop = True"




text \<open>
  The template persisted on a service record: the attribute \<open>heat_template\<close>, \<open>None\<close> when
  there is none. A persisted template exists when this value is true in the sense of the
  guard of the final assembly, that is, when it is not empty.
\<close>

definition persisted_template :: "pyval \<Rightarrow> pyval" where
  "persisted_template vnf =
     (case py_path vnf [''attributes'', ''heat_template''] of None \<Rightarrow> PNone | Some v \<Rightarrow> v)"

text \<open>
  A parser that yields a template with the unit \<open>VDU1\<close>, a translator object whose
  service record holds the persisted template \<open>old\<close> while the run has produced \<open>new\<close>,
  and a standards-based descriptor without policies.
\<close>

definition parsing_ext :: ext where
  "parsing_ext =
     example_ext\<lparr>simple_ordered_parse := (\<lambda>t. Inr (PDict [(''resources'', PDict
        [(''VDU1'', PDict [(''type'', PStr ''OS::Nova::Server''),
                           (''properties'', PDict [(''flavor'', PStr ''m1.tiny'')])])])]))\<rparr>"

definition persisted_self :: tosca_to_hot where
  "persisted_self =
     example_self\<lparr>self_vnf := PDict [(''id'', PStr ''vnf-1''),
                                     (''attributes'', PDict [(''heat_template'', PStr ''old'')])],
                   self_heat_template_yaml := PStr ''new'',
                   self_fields := PDict [(''template'', PStr ''new'')]\<rparr>"

definition no_policy_descriptor :: pyval where
  "no_policy_descriptor = PDict [(''topology_template'', PDict [])]"




section \<open>Properties\<close>

subsection \<open>Basic facts\<close>

lemma ebind_Inr [simp]: "ebind (Inr x) f = f x"
  by (simp add: ebind_def)

lemma ebind_Inl [simp]: "ebind (Inl e) f = Inl e"
  by (simp add: ebind_def)

lemma scale_name_not_G1: "get_scaling_policy_name action name \<noteq> ''G1''"
proof
  assume "get_scaling_policy_name action name = ''G1''"
  then have "length (get_scaling_policy_name action name) = length ''G1''" by simp
  then show False by (simp add: get_scaling_policy_name_def)
qed

lemma scale_in_not_out: "get_scaling_policy_name ''in'' name \<noteq> get_scaling_policy_name ''out'' name"
  by (simp add: get_scaling_policy_name_def)

subsection \<open>Printing and reading a negative number\<close>

lemma digit_val_digit: "d < 10 \<Longrightarrow> digit_val (''0123456789'' ! d) = Some d"
proof -
  assume "d < 10"
  then have "d \<in> {0, 1, 2, 3, 4, 5, 6, 7, 8, 9}" by auto
  then show ?thesis by (auto simp: digit_val_def)
qed

lemma digit_not_space: "d < 10 \<Longrightarrow> \<not> is_space (''0123456789'' ! d)"
proof -
  assume "d < 10"
  then have "d \<in> {0, 1, 2, 3, 4, 5, 6, 7, 8, 9}" by auto
  then show ?thesis by (auto simp: is_space_def)
qed

lemma digits_val_snoc:
  "digits_val acc (cs @ [c]) =
     (case digits_val acc cs of None \<Rightarrow> None
      | Some m \<Rightarrow> (case digit_val c of None \<Rightarrow> None | Some d \<Rightarrow> Some (10 * m + d)))"
  by (induction cs arbitrary: acc) (auto split: option.splits)

lemma digits_val_decimal: "digits_val 0 (decimal n) = Some n"
proof (induction n rule: decimal.induct)
  case (1 n)
  show ?case
  proof (cases "n < 10")
    case True
    then show ?thesis by (subst decimal.simps) (simp add: digit_val_digit)
  next
    case False
    with 1 have "digits_val 0 (decimal (n div 10)) = Some (n div 10)" by simp
    with False show ?thesis
      by (subst decimal.simps) (simp add: digits_val_snoc digit_val_digit)
  qed
qed

lemma decimal_last: "\<exists>cs d. decimal n = cs @ [''0123456789'' ! d] \<and> d < 10"
  by (subst decimal.simps) auto

lemma decimal_not_Nil: "decimal n \<noteq> []"
  using decimal_last [of n] by auto

lemma ungroup_plain: "CHR ''_'' \<notin> set s \<Longrightarrow> ungroup s = Some s"
  by (induction s) auto

lemma digit_not_underscore: "d < 10 \<Longrightarrow> ''0123456789'' ! d \<noteq> CHR ''_''"
proof -
  assume "d < 10"
  then have "d \<in> {0, 1, 2, 3, 4, 5, 6, 7, 8, 9}" by auto
  then show ?thesis by auto
qed

lemma decimal_plain: "CHR ''_'' \<notin> set (decimal n)"
proof (induction n rule: decimal.induct)
  case (1 n)
  show ?case
  proof (cases "n < 10")
    case True
    then show ?thesis using digit_not_underscore [of n] by (subst decimal.simps) auto
  next
    case False
    moreover have "n mod 10 < 10" by simp
    ultimately show ?thesis
      using 1 digit_not_underscore [of "n mod 10"] by (subst decimal.simps) auto
  qed
qed

lemma int_of_string_minus_decimal: "int_of_string (''-'' @ decimal n) = Inr (- int n)"
proof -
  obtain cs d where cs: "decimal n = cs @ [''0123456789'' ! d]" and d: "d < 10"
    using decimal_last by blast
  have "\<not> is_space CHR ''-''" by (simp add: is_space_def)
  moreover have "dropWhile is_space (rev (''-'' @ decimal n)) = rev (''-'' @ decimal n)"
    using digit_not_space [OF d] by (simp add: cs)
  moreover have "hd (decimal n) \<noteq> CHR ''_''"
    using decimal_plain [of n] decimal_not_Nil [of n] by (cases "decimal n") auto
  ultimately show ?thesis
    using decimal_not_Nil [of n]
    by (simp add: int_of_string_def digits_val_decimal ungroup_plain decimal_plain)
qed

subsection \<open>Scale-in and scale-out adjustments\<close>

text \<open>
  C1, as stated: with increment \<open>I\<close> the scale-in policy resource has
  \<open>scaling_adjustment\<close> exactly \<open>-I\<close>. It fails for the policy of the end-to-end scenario
  (\<open>I = 1\<close>): the scale-in adjustment is the text \<open>'-1'\<close>, not the integer \<open>-1\<close>.
\<close>

theorem scale_in_adjustment_is_text:
  "scaling_adjustment_of ''in'' ''SP1''
     (convert_to_heat_scaling_policy example_policy_prp ''scaling.yaml'' ''SP1'') = Some (PStr ''-1'')
   \<and> scaling_adjustment_of ''in'' ''SP1''
     (convert_to_heat_scaling_policy example_policy_prp ''scaling.yaml'' ''SP1'') \<noteq> Some (PInt (- 1))"
  by (simp add: scaling_adjustment_of_def example_policy_prp_def convert_to_heat_scaling_policy_def
      convert_to_heat_scaling_group_def get_scale_group_name_def get_scaling_policy_name_def
      getitem_def format_d_def decimal.simps Let_def)

text \<open>
  C1, amended: for every scaling policy that has the six properties and a positive integer
  increment \<open>I\<close>, scaling expansion succeeds and produces the group \<open>G1\<close>, a scale-out
  policy resource whose \<open>scaling_adjustment\<close> is the integer \<open>I\<close>, and a scale-in policy
  resource whose \<open>scaling_adjustment\<close> is the text made of a minus sign and the decimal
  digits of \<open>I\<close> (a text that \<open>int\<close> reads as \<open>-I\<close>); the two policy resources are identical
  in every other property.
\<close>

theorem scaling_policy_adjustments:
  assumes "getitem policy_prp ''targets'' = Inr targets"
    and "getitem policy_prp ''min_instances'' = Inr min_instances"
    and "getitem policy_prp ''max_instances'' = Inr max_instances"
    and "getitem policy_prp ''default_instances'' = Inr default_instances"
    and "getitem policy_prp ''cooldown'' = Inr cooldown"
    and "getitem policy_prp ''increment'' = Inr (PInt I)"
    and "0 < I"
  shows "convert_to_heat_scaling_policy policy_prp scale_resource_type name =
      Inr ([(''G1'', PDict
               [(''type'', PStr ''OS::Heat::AutoScalingGroup''),
                (''properties'', PDict
                   [(''min_size'', min_instances),
                    (''max_size'', max_instances),
                    (''desired_capacity'', default_instances),
                    (''cooldown'', cooldown),
                    (''resource'', PDict [(''type'', PStr scale_resource_type)])])]),
            (name @ ''_scale_out'', PDict
               [(''type'', PStr ''OS::Heat::ScalingPolicy''),
                (''properties'', PDict
                   [(''adjustment_type'', PStr ''change_in_capacity''),
                    (''cooldown'', cooldown),
                    (''scaling_adjustment'', PInt I),
                    (''auto_scaling_group_id'', PDict [(''get_resource'', PStr ''G1'')])])]),
            (name @ ''_scale_in'', PDict
               [(''type'', PStr ''OS::Heat::ScalingPolicy''),
                (''properties'', PDict
                   [(''adjustment_type'', PStr ''change_in_capacity''),
                    (''cooldown'', cooldown),
                    (''scaling_adjustment'', PStr (''-'' @ decimal (nat I))),
                    (''auto_scaling_group_id'', PDict [(''get_resource'', PStr ''G1'')])])])],
           [(name, PStr ''G1'')])
     \<and> py_int (PStr (''-'' @ decimal (nat I))) = Inr (- I)"
proof -
  have n1: "''G1'' \<noteq> get_scaling_policy_name ''out'' name"
    and n2: "''G1'' \<noteq> get_scaling_policy_name ''in'' name"
    using scale_name_not_G1 by metis+
  have n3: "get_scaling_policy_name ''out'' name \<noteq> get_scaling_policy_name ''in'' name"
    using scale_in_not_out by metis
  have nm: "get_scaling_policy_name ''out'' name = name @ ''_scale_out''"
    "get_scaling_policy_name ''in'' name = name @ ''_scale_in''"
    by (simp_all add: get_scaling_policy_name_def)
  have "convert_to_heat_scaling_group policy_prp scale_resource_type ''G1'' =
      Inr (PDict
             [(''type'', PStr ''OS::Heat::AutoScalingGroup''),
              (''properties'', PDict
                 [(''min_size'', min_instances),
                  (''max_size'', max_instances),
                  (''desired_capacity'', default_instances),
                  (''cooldown'', cooldown),
                  (''resource'', PDict [(''type'', PStr scale_resource_type)])])])"
    using assms by (simp add: convert_to_heat_scaling_group_def)
  then have "convert_to_heat_scaling_policy policy_prp scale_resource_type name =
      Inr ([(''G1'', PDict
               [(''type'', PStr ''OS::Heat::AutoScalingGroup''),
                (''properties'', PDict
                   [(''min_size'', min_instances),
                    (''max_size'', max_instances),
                    (''desired_capacity'', default_instances),
                    (''cooldown'', cooldown),
                    (''resource'', PDict [(''type'', PStr scale_resource_type)])])]),
            (get_scaling_policy_name ''out'' name, PDict
               [(''type'', PStr ''OS::Heat::ScalingPolicy''),
                (''properties'', PDict
                   [(''adjustment_type'', PStr ''change_in_capacity''),
                    (''cooldown'', cooldown),
                    (''scaling_adjustment'', PInt I),
                    (''auto_scaling_group_id'', PDict [(''get_resource'', PStr ''G1'')])])]),
            (get_scaling_policy_name ''in'' name, PDict
               [(''type'', PStr ''OS::Heat::ScalingPolicy''),
                (''properties'', PDict
                   [(''adjustment_type'', PStr ''change_in_capacity''),
                    (''cooldown'', cooldown),
                    (''scaling_adjustment'', PStr (''-'' @ decimal (nat I))),
                    (''auto_scaling_group_id'', PDict [(''get_resource'', PStr ''G1'')])])])],
           [(name, PStr ''G1'')])"
    using assms n1 n2 n3
    by (simp add: convert_to_heat_scaling_policy_def get_scale_group_name_def format_d_def Let_def)
  moreover have "py_int (PStr (''-'' @ decimal (nat I))) = Inr (- I)"
    using assms(7) int_of_string_minus_decimal [of "nat I"] by simp
  ultimately show ?thesis by (simp add: nm)
qed

theorem scaling_policy_adjustments_witness:
  "getitem example_policy_prp ''increment'' = Inr (PInt 1) \<and> (0::int) < 1
   \<and> scaling_adjustment_of ''out'' ''SP1''
       (convert_to_heat_scaling_policy example_policy_prp ''scaling.yaml'' ''SP1'') = Some (PInt 1)
   \<and> scaling_adjustment_of ''in'' ''SP1''
       (convert_to_heat_scaling_policy example_policy_prp ''scaling.yaml'' ''SP1'')
         = Some (PStr (''-'' @ decimal 1))
   \<and> py_int (PStr (''-'' @ decimal 1)) = Inr (- 1)"
proof -
  have h: "getitem example_policy_prp ''targets'' = Inr (PList [PStr ''VDU1''])"
    "getitem example_policy_prp ''min_instances'' = Inr (PInt 1)"
    "getitem example_policy_prp ''max_instances'' = Inr (PInt 3)"
    "getitem example_policy_prp ''default_instances'' = Inr (PInt 1)"
    "getitem example_policy_prp ''cooldown'' = Inr (PInt 60)"
    "getitem example_policy_prp ''increment'' = Inr (PInt 1)"
    "(0::int) < 1"
    by (simp_all add: example_policy_prp_def getitem_def)
  show ?thesis
    using h(6) scaling_policy_adjustments [OF h, of "''scaling.yaml''" "''SP1''"]
    by (simp add: scaling_adjustment_of_def get_scaling_policy_name_def)
qed

subsection \<open>The action list of an alarm\<close>

text \<open>
  C7 says that no action list is attached when the service record has no notification
  target. For a record whose attributes have no \<open>alarm_url\<close> the code attaches the action
  list \<open>['None']\<close>: the absent target is turned into text before it is tested.
\<close>

theorem alarm_actions_without_alarm_url:
  "convert_to_heat_monitoring_prop example_ext example_alarm_policy
     (PDict [(''id'', PStr ''vnf-1''), (''attributes'', PDict [])]) =
   Inr [(''meter_name'', PStr ''cpu_util''),
        (''comparison_operator'', PStr ''gt''),
        (''period'', PInt 65),
        (''evaluation_periods'', PInt 1),
        (''statistic'', PStr ''avg''),
        (''description'', PStr ''utilization greater_than 50%''),
        (''threshold'', PInt 50),
        (''alarm_actions'', PList [PStr ''None''])]"
  by (simp add: convert_to_heat_monitoring_prop_def example_alarm_policy_def example_ext_def
      first_item_def getitem_def)

subsection \<open>The monitoring document of a legacy descriptor\<close>

text \<open>
  C3 says that every unit with a monitoring policy other than \<open>noop\<close> is in the monitoring
  document. For a descriptor with two such units the document returned holds the second
  unit only: the \<open>vdus\<close> mapping is created anew for each unit.
\<close>

theorem monitoring_document_keeps_last_unit:
  "map_sum id self_monitoring_dict
     (generate_hot_from_legacy example_ext example_self two_monitored_vdus (PDict [])) =
   Inr (PDict [(''vdus'', PDict [(''vdu2'', PStr ''ping'')])])"
  by (simp add: generate_hot_from_legacy_def legacy_vdu_def legacy_vdu_create_def
      legacy_vdu_fill_def legacy_user_data_def legacy_placement_def legacy_config_def
      legacy_key_name_def legacy_monitoring_def legacy_service_type_def example_ext_def
      example_self_def two_monitored_vdus_def heat_template_base_def getitem_def has_key_def
      sublist_code)

subsection \<open>Parameter resolution: what a call leaves in the document\<close>

lemma update_entry_unchanged:
  "\<not> str_has_get_input v \<Longrightarrow> update_entry k v pv m = (v, None)"
  by (cases v) simp_all

lemma update_params_keys: "map fst (fst (update_params original pv m)) = map fst original"
proof (induction original)
  case Nil
  show ?case by simp
next
  case (Cons kv rest)
  obtain key v where kv: "kv = (key, v)" by (cases kv)
  show ?case using Cons
    by (auto simp: kv split: prod.splits option.splits)
qed

lemma update_params_map_of:
  "map_of original k = Some v \<Longrightarrow> \<not> str_has_get_input v \<Longrightarrow>
   map_of (fst (update_params original pv m)) k = Some v"
proof (induction original)
  case Nil
  then show ?case by simp
next
  case (Cons kv rest)
  obtain key w where kv: "kv = (key, w)" by (cases kv)
  show ?case
  proof (cases "key = k")
    case True
    with Cons.prems kv have "w = v" by simp
    with Cons.prems(2) have "update_entry key w pv m = (v, None)"
      by (simp add: update_entry_unchanged)
    with True show ?thesis by (simp add: kv split: prod.splits)
  next
    case False
    with Cons kv have "map_of (fst (update_params rest pv m)) k = Some v" by simp
    with False Cons.prems kv show ?thesis
      by (auto split: prod.splits option.splits)
  qed
qed

lemma update_params_map_of_None:
  "map_of original k = None \<Longrightarrow> map_of (fst (update_params original pv m)) k = None"
proof -
  assume "map_of original k = None"
  then have "k \<notin> set (map fst original)" by (simp add: map_of_eq_None_iff)
  moreover have "set (map fst (fst (update_params original pv m))) = set (map fst original)"
    by (simp only: update_params_keys)
  ultimately have "k \<notin> set (map fst (fst (update_params original pv m)))"
    by blast
  then have "k \<notin> fst ` set (fst (update_params original pv m))" by simp
  then show ?thesis by (simp add: map_of_eq_None_iff)
qed

lemma update_params_failure:
  "update_params original pv m = (original', Some err) \<Longrightarrow>
   \<exists>pre pre' key v v' post.
     original = pre @ (key, v) # post \<and> original' = pre' @ (key, v') # post
     \<and> update_params pre pv m = (pre', None) \<and> update_entry key v pv m = (v', Some err)"
proof (induction original arbitrary: original')
  case Nil
  then show ?case by simp
next
  case (Cons kv rest)
  obtain key w where kv: "kv = (key, w)" by (cases kv)
  obtain w' r where ue: "update_entry key w pv m = (w', r)" by (cases "update_entry key w pv m")
  show ?case
  proof (cases r)
    case (Some e)
    with Cons.prems kv ue have "original' = (key, w') # rest" "e = err" by auto
    with Some ue kv have "kv # rest = [] @ (key, w) # rest \<and> original' = [] @ (key, w') # rest
      \<and> update_params [] pv m = ([], None) \<and> update_entry key w pv m = (w', Some err)" by simp
    then show ?thesis by blast
  next
    case None
    obtain rest' r' where up: "update_params rest pv m = (rest', r')" by (cases "update_params rest pv m")
    with Cons.prems kv ue None have o': "original' = (key, w') # rest'" and r': "r' = Some err" by auto
    from Cons.IH [of rest'] up r' obtain pre pre' k v v' post where
      d: "rest = pre @ (k, v) # post" "rest' = pre' @ (k, v') # post"
         "update_params pre pv m = (pre', None)" "update_entry k v pv m = (v', Some err)" by blast
    have "kv # rest = ((key, w) # pre) @ (k, v) # post \<and> original' = ((key, w') # pre') @ (k, v') # post
      \<and> update_params ((key, w) # pre) pv m = ((key, w') # pre', None) \<and> update_entry k v pv m = (v', Some err)"
      using d o' kv ue None by simp
    then show ?thesis by blast
  qed
qed

subsection \<open>A legacy descriptor without units\<close>

lemma py_get_vdus_empty:
  "py_get d ''vdus'' (PDict []) = Inr (PDict []) \<longleftrightarrow>
   (\<exists>kvs. d = PDict kvs \<and> (map_of kvs ''vdus'' = None \<or> map_of kvs ''vdus'' = Some (PDict [])))"
  by (cases d) (auto split: option.splits)

lemma resolution_keeps_no_units:
  assumes "py_get d ''vdus'' (PDict []) = Inr (PDict [])"
    and "process_parameterized_input e dev_attrs d = (d', None)"
  shows "py_get d' ''vdus'' (PDict []) = Inr (PDict [])"
proof -
  from assms(1) obtain kvs where d: "d = PDict kvs"
    and v: "map_of kvs ''vdus'' = None \<or> map_of kvs ''vdus'' = Some (PDict [])"
    by (auto simp: py_get_vdus_empty)
  from assms(2) d obtain pv kvs' where d': "d' = PDict kvs'"
    and up: "update_params kvs pv False = (kvs', None)"
    by (auto simp: process_parameterized_input_def split: sum.splits prod.splits if_splits option.splits)
  from v have "map_of kvs' ''vdus'' = None \<or> map_of kvs' ''vdus'' = Some (PDict [])"
  proof
    assume "map_of kvs ''vdus'' = None"
    then show ?thesis using update_params_map_of_None [of kvs "''vdus''" pv False] up by simp
  next
    assume "map_of kvs ''vdus'' = Some (PDict [])"
    then show ?thesis using update_params_map_of [of kvs "''vdus''" "PDict []" pv False] up by simp
  qed
  then show ?thesis by (auto simp: py_get_vdus_empty d')
qed

lemma legacy_no_units_direct:
  assumes "py_in (PStr ''template'') (self_fields self) = Inr False"
    and "py_in (PStr ''template_url'') (self_fields self) = Inr False"
    and "py_in (PStr ''get_input'') (self_vnfd_yaml self) = Inr False"
    and "py_get vnfd_dict ''vdus'' (PDict []) = Inr (PDict [])"
  shows "generate_hot_from_legacy e self vnfd_dict dev_attrs = Inl UnboundLocalError"
proof -
  from assms(4) obtain kvs where d: "vnfd_dict = PDict kvs" by (auto simp: py_get_vdus_empty)
  show ?thesis
    using assms by (simp add: generate_hot_from_legacy_def heat_template_base_def d getitem_def
        has_key_def split: option.splits)
qed

lemma legacy_no_units_resolved:
  assumes "py_in (PStr ''template'') (self_fields self) = Inr False"
    and "py_in (PStr ''template_url'') (self_fields self) = Inr False"
    and "py_in (PStr ''get_input'') (self_vnfd_yaml self) = Inr True"
    and "process_parameterized_input e dev_attrs vnfd_dict = (d', None)"
    and "py_get d' ''vdus'' (PDict []) = Inr (PDict [])"
  shows "generate_hot_from_legacy e self vnfd_dict dev_attrs = Inl UnboundLocalError"
proof -
  from assms(5) obtain kvs where d: "d' = PDict kvs" by (auto simp: py_get_vdus_empty)
  show ?thesis
    using assms by (simp add: generate_hot_from_legacy_def heat_template_base_def d getitem_def
        has_key_def split: option.splits)
qed

lemma legacy_resolution_fails:
  assumes "py_in (PStr ''template'') (self_fields self) = Inr False"
    and "py_in (PStr ''template_url'') (self_fields self) = Inr False"
    and "py_in (PStr ''get_input'') (self_vnfd_yaml self) = Inr True"
    and "process_parameterized_input e dev_attrs vnfd_dict = (d', Some err)"
  shows "generate_hot_from_legacy e self vnfd_dict dev_attrs = Inl err"
  using assms by (simp add: generate_hot_from_legacy_def heat_template_base_def)


lemma legacy_no_units_cases:
  assumes "py_get vnfd_dict ''vdus'' (PDict []) = Inr (PDict [])"
  shows "generate_hot_from_legacy e self vnfd_dict dev_attrs =
     (case py_in (PStr ''template'') (self_fields self) of
        Inl err \<Rightarrow> Inl err
      | Inr has_template \<Rightarrow>
          if has_template then Inl AssertionError
          else (case py_in (PStr ''template_url'') (self_fields self) of
                  Inl err \<Rightarrow> Inl err
                | Inr has_template_url \<Rightarrow>
                    if has_template_url then Inl AssertionError
                    else (case py_in (PStr ''get_input'') (self_vnfd_yaml self) of
                            Inl err \<Rightarrow> Inl err
                          | Inr has_input \<Rightarrow>
                              if has_input then
                                (case snd (process_parameterized_input e dev_attrs vnfd_dict) of
                                   Some err \<Rightarrow> Inl err
                                 | None \<Rightarrow> Inl UnboundLocalError)
                              else Inl UnboundLocalError)))"
proof (cases "py_in (PStr ''template'') (self_fields self)")
  case (Inl err)
  then show ?thesis by (simp add: generate_hot_from_legacy_def)
next
  case b1: (Inr has_template)
  show ?thesis
  proof (cases has_template)
    case True
    with b1 show ?thesis by (simp add: generate_hot_from_legacy_def)
  next
    case f1: False
    show ?thesis
    proof (cases "py_in (PStr ''template_url'') (self_fields self)")
      case (Inl err)
      with b1 f1 show ?thesis by (simp add: generate_hot_from_legacy_def)
    next
      case b2: (Inr has_template_url)
      show ?thesis
      proof (cases has_template_url)
        case True
        with b1 f1 b2 show ?thesis by (simp add: generate_hot_from_legacy_def)
      next
        case f2: False
        show ?thesis
        proof (cases "py_in (PStr ''get_input'') (self_vnfd_yaml self)")
          case (Inl err)
          with b1 f1 b2 f2 show ?thesis
            by (simp add: generate_hot_from_legacy_def heat_template_base_def)
        next
          case b3: (Inr has_input)
          show ?thesis
          proof (cases has_input)
            case False
            with b1 f1 b2 f2 b3 assms show ?thesis
              by (simp add: legacy_no_units_direct)
          next
            case True
            obtain d' r where p: "process_parameterized_input e dev_attrs vnfd_dict = (d', r)"
              by (cases "process_parameterized_input e dev_attrs vnfd_dict")
            show ?thesis
            proof (cases r)
              case None
              with p assms have "py_get d' ''vdus'' (PDict []) = Inr (PDict [])"
                using resolution_keeps_no_units by blast
              with b1 f1 b2 f2 b3 True p None show ?thesis
                by (simp add: legacy_no_units_resolved)
            next
              case (Some err)
              with b1 f1 b2 f2 b3 True p show ?thesis
                by (simp add: legacy_resolution_fails)
            qed
          qed
        qed
      qed
    qed
  qed
qed

text \<open>
  C10: for every legacy descriptor whose unit collection \<open>vdus\<close> is absent or empty, legacy
  translation never returns a template; it raises the name error of the unbound template
  text, unless a statement before the loop has raised already (an assertion on the fields,
  a membership test on a value that is no container, or parameter resolution).
\<close>

theorem legacy_without_units:
  assumes "py_get vnfd_dict ''vdus'' (PDict []) = Inr (PDict [])"
  shows "(\<forall>result. generate_hot_from_legacy e self vnfd_dict dev_attrs \<noteq> Inr result)
     \<and> (py_in (PStr ''template'') (self_fields self) = Inr False
        \<longrightarrow> py_in (PStr ''template_url'') (self_fields self) = Inr False
        \<longrightarrow> (py_in (PStr ''get_input'') (self_vnfd_yaml self) = Inr False
             \<or> py_in (PStr ''get_input'') (self_vnfd_yaml self) = Inr True
               \<and> snd (process_parameterized_input e dev_attrs vnfd_dict) = None)
        \<longrightarrow> generate_hot_from_legacy e self vnfd_dict dev_attrs = Inl UnboundLocalError)"
  by (auto simp: legacy_no_units_cases [OF assms] split: sum.splits option.splits)

theorem legacy_without_units_witness:
  "py_get (PDict []) ''vdus'' (PDict []) = Inr (PDict [])
   \<and> py_get (PDict [(''vdus'', PDict [])]) ''vdus'' (PDict []) = Inr (PDict [])
   \<and> py_in (PStr ''template'') (self_fields example_self) = Inr False
   \<and> py_in (PStr ''template_url'') (self_fields example_self) = Inr False
   \<and> py_in (PStr ''get_input'') (self_vnfd_yaml example_self) = Inr False
   \<and> generate_hot_from_legacy example_ext example_self (PDict []) (PDict []) = Inl UnboundLocalError
   \<and> generate_hot_from_legacy example_ext example_self (PDict [(''vdus'', PDict [])]) (PDict [])
       = Inl UnboundLocalError"
proof -
  have h1: "py_get (PDict []) ''vdus'' (PDict []) = Inr (PDict [])" by simp
  have h2: "py_get (PDict [(''vdus'', PDict [])]) ''vdus'' (PDict []) = Inr (PDict [])" by simp
  have f: "py_in (PStr ''template'') (self_fields example_self) = Inr False"
    "py_in (PStr ''template_url'') (self_fields example_self) = Inr False"
    "py_in (PStr ''get_input'') (self_vnfd_yaml example_self) = Inr False"
    by (simp_all add: example_self_def has_key_def sublist_code)
  show ?thesis
    using h1 h2 f
      legacy_without_units [OF h1, of example_ext example_self "PDict []"]
      legacy_without_units [OF h2, of example_ext example_self "PDict []"]
    by simp
qed

subsection \<open>Parameter resolution that fails\<close>

text \<open>
  C2, as stated: when resolution fails with the missing-input condition the descriptor
  document is left unchanged. It fails for a unit whose image and flavor are placeholders
  when the values supply the image only: the flavor raises the condition after the image
  has been substituted in the document.
\<close>

theorem failed_resolution_leaves_substitution:
  "update_params placeholder_descriptor image_only_values False =
     ([(''vdus'', PDict [(''vdu1'', PDict
          [(''vm_image'', PStr ''cirros''),
           (''instance_type'', PDict [(''get_input'', PStr ''flavor'')])])])],
      Some (InputValuesMissing ''instance_type''))
   \<and> fst (update_params placeholder_descriptor image_only_values False) \<noteq> placeholder_descriptor"
  by (simp add: placeholder_descriptor_def image_only_values_def getitem_def has_key_def
      sublist_code)

lemma process_parameterized_input_missing:
  assumes "process_parameterized_input e dev_attrs vnfd_dict = (vnfd_dict', Some (InputValuesMissing k))"
  shows "\<exists>param_vattrs_yaml dev_attrs' paramvalues original original'.
       py_pop dev_attrs ''param_values'' PNone = Inr (param_vattrs_yaml, dev_attrs')
     \<and> yaml_load e param_vattrs_yaml = Some paramvalues
     \<and> vnfd_dict = PDict original \<and> vnfd_dict' = PDict original'
     \<and> update_params original paramvalues False = (original', Some (InputValuesMissing k))"
proof (cases "py_pop dev_attrs ''param_values'' PNone")
  case (Inl err)
  with assms have False
    by (cases dev_attrs) (simp_all add: process_parameterized_input_def)
  then show ?thesis ..
next
  case (Inr pr)
  obtain y dev' where pr: "pr = (y, dev')" by (cases pr)
  show ?thesis
  proof (cases "py_truthy y")
    case False
    with assms Inr pr show ?thesis by (simp add: process_parameterized_input_def)
  next
    case True
    show ?thesis
    proof (cases "yaml_load e y")
      case None
      with assms Inr pr True show ?thesis by (simp add: process_parameterized_input_def)
    next
      case (Some pv)
      show ?thesis
      proof (cases vnfd_dict)
        case (PDict original)
        obtain original' r where u: "update_params original pv False = (original', r)"
          by (cases "update_params original pv False")
        with assms Inr pr True Some PDict show ?thesis
          by (auto simp: process_parameterized_input_def)
      qed (use assms Inr pr True Some in \<open>simp_all add: process_parameterized_input_def\<close>)
    qed
  qed
qed

lemma update_params_length: "length (fst (update_params original pv m)) = length original"
  using update_params_keys [of original pv m] by (metis length_map)

text \<open>
  C2, amended: for every descriptor and every caller-supplied value mapping, if parameter
  resolution fails with the missing-input condition then the failure aborts the
  translation, which returns that condition and no template, and the descriptor document is
  left as the interrupted pass has made it, with no rollback. With the values that the
  loader returned for the caller's text, the document is a mapping whose entries before the
  offending one are as a successful resolution of them leaves them, substitutions included,
  whose offending entry is as its failing visit left it, and whose entries after the
  offending one are untouched. So the document is unchanged exactly when the pass had
  changed nothing before it failed.
\<close>

theorem missing_input_aborts_translation:
  assumes "process_parameterized_input e dev_attrs vnfd_dict = (vnfd_dict', Some (InputValuesMissing k))"
  shows "(\<exists>param_vattrs_yaml dev_attrs' paramvalues original original' pre pre' key v v' post.
            py_pop dev_attrs ''param_values'' PNone = Inr (param_vattrs_yaml, dev_attrs')
            \<and> yaml_load e param_vattrs_yaml = Some paramvalues
            \<and> vnfd_dict = PDict original \<and> vnfd_dict' = PDict original'
            \<and> original = pre @ (key, v) # post \<and> original' = pre' @ (key, v') # post
            \<and> update_params pre paramvalues False = (pre', None)
            \<and> update_entry key v paramvalues False = (v', Some (InputValuesMissing k))
            \<and> (vnfd_dict' = vnfd_dict \<longleftrightarrow> pre' = pre \<and> v' = v))
     \<and> (py_in (PStr ''template'') (self_fields self) = Inr False
        \<longrightarrow> py_in (PStr ''template_url'') (self_fields self) = Inr False
        \<longrightarrow> py_in (PStr ''get_input'') (self_vnfd_yaml self) = Inr True
        \<longrightarrow> generate_hot_from_legacy e self vnfd_dict dev_attrs = Inl (InputValuesMissing k))"
proof
  from process_parameterized_input_missing [OF assms]
  obtain param_vattrs_yaml dev_attrs' paramvalues original original' where
    l: "py_pop dev_attrs ''param_values'' PNone = Inr (param_vattrs_yaml, dev_attrs')"
       "yaml_load e param_vattrs_yaml = Some paramvalues"
    and d: "vnfd_dict = PDict original" "vnfd_dict' = PDict original'"
    and u: "update_params original paramvalues False = (original', Some (InputValuesMissing k))"
    by blast
  from update_params_failure [OF u] obtain pre pre' key v v' post where
    s: "original = pre @ (key, v) # post" "original' = pre' @ (key, v') # post"
       "update_params pre paramvalues False = (pre', None)"
       "update_entry key v paramvalues False = (v', Some (InputValuesMissing k))"
    by blast
  have "length pre' = length pre"
    using update_params_length [of pre paramvalues False] s(3) by simp
  then have "vnfd_dict' = vnfd_dict \<longleftrightarrow> pre' = pre \<and> v' = v"
    using d s(1,2) by auto
  with l d s
  show "\<exists>param_vattrs_yaml dev_attrs' paramvalues original original' pre pre' key v v' post.
            py_pop dev_attrs ''param_values'' PNone = Inr (param_vattrs_yaml, dev_attrs')
            \<and> yaml_load e param_vattrs_yaml = Some paramvalues
            \<and> vnfd_dict = PDict original \<and> vnfd_dict' = PDict original'
            \<and> original = pre @ (key, v) # post \<and> original' = pre' @ (key, v') # post
            \<and> update_params pre paramvalues False = (pre', None)
            \<and> update_entry key v paramvalues False = (v', Some (InputValuesMissing k))
            \<and> (vnfd_dict' = vnfd_dict \<longleftrightarrow> pre' = pre \<and> v' = v)"
    by blast
next
  show "py_in (PStr ''template'') (self_fields self) = Inr False
        \<longrightarrow> py_in (PStr ''template_url'') (self_fields self) = Inr False
        \<longrightarrow> py_in (PStr ''get_input'') (self_vnfd_yaml self) = Inr True
        \<longrightarrow> generate_hot_from_legacy e self vnfd_dict dev_attrs = Inl (InputValuesMissing k)"
    using assms legacy_resolution_fails by blast
qed

theorem missing_input_aborts_translation_witness:
  "process_parameterized_input image_only_ext (PDict [(''param_values'', PStr ''vdus: ...'')])
     (PDict placeholder_descriptor) =
     (PDict [(''vdus'', PDict [(''vdu1'', PDict
          [(''vm_image'', PStr ''cirros''),
           (''instance_type'', PDict [(''get_input'', PStr ''flavor'')])])])],
      Some (InputValuesMissing ''instance_type''))
   \<and> process_parameterized_input other_only_ext (PDict [(''param_values'', PStr ''other: 1'')])
       (PDict placeholder_descriptor) =
       (PDict placeholder_descriptor, Some (InputValuesMissing ''vdus''))
   \<and> py_in (PStr ''template'') (self_fields placeholder_self) = Inr False
   \<and> py_in (PStr ''template_url'') (self_fields placeholder_self) = Inr False
   \<and> py_in (PStr ''get_input'') (self_vnfd_yaml placeholder_self) = Inr True
   \<and> generate_hot_from_legacy image_only_ext placeholder_self (PDict placeholder_descriptor)
       (PDict [(''param_values'', PStr ''vdus: ...'')]) = Inl (InputValuesMissing ''instance_type'')
   \<and> generate_hot_from_legacy other_only_ext placeholder_self (PDict placeholder_descriptor)
       (PDict [(''param_values'', PStr ''other: 1'')]) = Inl (InputValuesMissing ''vdus'')"
proof -
  have h: "process_parameterized_input image_only_ext (PDict [(''param_values'', PStr ''vdus: ...'')])
     (PDict placeholder_descriptor) =
     (PDict [(''vdus'', PDict [(''vdu1'', PDict
          [(''vm_image'', PStr ''cirros''),
           (''instance_type'', PDict [(''get_input'', PStr ''flavor'')])])])],
      Some (InputValuesMissing ''instance_type''))"
    by (simp add: process_parameterized_input_def image_only_ext_def example_ext_def
        placeholder_descriptor_def image_only_values_def getitem_def has_key_def sublist_code)
  have h': "process_parameterized_input other_only_ext (PDict [(''param_values'', PStr ''other: 1'')])
       (PDict placeholder_descriptor) =
       (PDict placeholder_descriptor, Some (InputValuesMissing ''vdus''))"
    by (simp add: process_parameterized_input_def other_only_ext_def example_ext_def
        placeholder_descriptor_def other_only_values_def getitem_def has_key_def sublist_code)
  have f: "py_in (PStr ''template'') (self_fields placeholder_self) = Inr False"
    "py_in (PStr ''template_url'') (self_fields placeholder_self) = Inr False"
    "py_in (PStr ''get_input'') (self_vnfd_yaml placeholder_self) = Inr True"
    by (simp_all add: placeholder_self_def example_self_def has_key_def sublist_code)
  show ?thesis
    using h h' f missing_input_aborts_translation [OF h, of placeholder_self]
      missing_input_aborts_translation [OF h', of placeholder_self]
    by simp
qed

subsection \<open>Mappings and bound results\<close>

lemma length_set_key: "length (set_key k v xs) \<le> Suc (length xs)"
  by (induction xs) auto

lemma map_of_set_key: "map_of (set_key k v xs) k' = (if k' = k then Some v else map_of xs k')"
  by (induction xs) auto

lemma map_of_del_key: "map_of (del_key k xs) k' = (if k' = k then None else map_of xs k')"
  by (induction xs) auto

lemma del_key_idem: "del_key k (del_key k xs) = del_key k xs"
  by (induction xs) auto

lemma has_key_set_key: "has_key (set_key k v xs) k' \<longleftrightarrow> k' = k \<or> has_key xs k'"
  by (simp add: has_key_def map_of_set_key)

lemma has_key_del_key: "has_key (del_key k xs) k' \<longleftrightarrow> k' \<noteq> k \<and> has_key xs k'"
  by (simp add: has_key_def map_of_del_key)

lemma getitem_Inr: "getitem c k = Inr v \<longleftrightarrow> (\<exists>kvs. c = PDict kvs \<and> map_of kvs k = Some v)"
  by (cases c) (auto simp: getitem_def split: option.splits)

lemma setitem_Inr: "setitem c k v = Inr c' \<longleftrightarrow> (\<exists>kvs. c = PDict kvs \<and> c' = PDict (set_key k v kvs))"
  by (cases c) auto

lemma ebind_eq_Inr: "ebind m f = Inr y \<longleftrightarrow> (\<exists>x. m = Inr x \<and> f x = Inr y)"
  by (cases m) simp_all

lemma py_in_dict: "py_in (PStr k) (PDict kvs) = Inr (has_key kvs k)"
  by simp

lemma py_pop_Inr:
  "py_pop c k dflt = Inr (v, c') \<longleftrightarrow>
   (\<exists>kvs. c = PDict kvs \<and> v = (case map_of kvs k of None \<Rightarrow> dflt | Some w \<Rightarrow> w)
      \<and> c' = PDict (del_key k kvs))"
  by (cases c) auto

lemma py_items_Inr: "py_items c = Inr kvs \<longleftrightarrow> c = PDict kvs"
  by (cases c) auto

subsection \<open>One port for each interface spec\<close>

lemma make_mgmt_outputs_dict_resources:
  assumes "make_mgmt_outputs_dict vdu_id port t = Inr t'"
  shows "py_path t' [''resources''] = py_path t [''resources'']"
  using assms
  by (auto simp: make_mgmt_outputs_dict_def ebind_eq_Inr getitem_Inr setitem_Inr map_of_set_key)

lemma handle_port_creation_resources:
  assumes "handle_port_creation e self vdu_id network_param t ip_list mgmt_flag = Inr (port, t')"
  shows "\<exists>kvs rs tt port_dict.
           t = PDict kvs \<and> map_of kvs ''resources'' = Some (PDict rs)
         \<and> t' = PDict (set_key ''resources'' (PDict (set_key port port_dict rs)) tt)"
proof -
  from assms obtain t1 where
    t1: "(if py_truthy mgmt_flag then make_mgmt_outputs_dict vdu_id port t else Inr t) = Inr t1"
    and "\<exists>tkvs rs port_dict. t1 = PDict tkvs \<and> map_of tkvs ''resources'' = Some (PDict rs)
         \<and> t' = PDict (set_key ''resources'' (PDict (set_key port port_dict rs)) tkvs)"
    by (auto simp: handle_port_creation_def Let_def ebind_eq_Inr getitem_Inr setitem_Inr)
  then obtain tkvs rs port_dict where t1': "t1 = PDict tkvs" "map_of tkvs ''resources'' = Some (PDict rs)"
    "t' = PDict (set_key ''resources'' (PDict (set_key port port_dict rs)) tkvs)" by blast
  from t1 have "py_path t1 [''resources''] = py_path t [''resources'']"
    by (auto simp: make_mgmt_outputs_dict_resources split: if_splits)
  with t1' have "py_path t [''resources''] = Some (PDict rs)" by simp
  then obtain kvs where "t = PDict kvs" "map_of kvs ''resources'' = Some (PDict rs)"
    by (cases t) (auto split: option.splits)
  with t1' show ?thesis by blast
qed

lemma handle_port_creation_count:
  assumes "handle_port_creation e self vdu_id network_param t ip_list mgmt_flag = Inr (port, t')"
  shows "num_resources t' \<le> num_resources t + 1"
proof -
  from handle_port_creation_resources [OF assms] obtain kvs rs tt port_dict where
    "t = PDict kvs" "map_of kvs ''resources'' = Some (PDict rs)"
    "t' = PDict (set_key ''resources'' (PDict (set_key port port_dict rs)) tt)" by blast
  then show ?thesis by (simp add: num_resources_def map_of_set_key length_set_key)
qed


lemma address_branch:
  assumes "py_in (PStr ''addresses'') network_param = Inr True"
    and "process_network_param e self vdu_id network_param template_dict =
           Inr (entry, network_param', template_dict')"
  shows "\<exists>np ips port.
       network_param = PDict np \<and> map_of np ''addresses'' = Some (PList ips)
     \<and> network_param' = PDict (del_key ''management'' (del_key ''addresses'' np))
     \<and> handle_port_creation e self vdu_id network_param' template_dict ips
          (case map_of np ''management'' of None \<Rightarrow> PBool False | Some flag \<Rightarrow> flag)
         = Inr (port, template_dict')
     \<and> entry = PDict [(''port'', PDict [(''get_resource'', PStr port)])]"
proof (cases network_param)
  case (PDict np)
  with assms(1) obtain a where a: "map_of np ''addresses'' = Some a"
    by (auto simp: has_key_def)
  let ?np' = "PDict (del_key ''management'' (del_key ''addresses'' np))"
  let ?flag = "case map_of np ''management'' of None \<Rightarrow> PBool False | Some flag \<Rightarrow> flag"
  show ?thesis
  proof (cases a)
    case (PList ips)
    have "process_network_param e self vdu_id (PDict np) template_dict =
        ebind (handle_port_creation e self vdu_id ?np' template_dict ips ?flag)
          (\<lambda>(port, t). Inr (PDict [(''port'', PDict [(''get_resource'', PStr port)])], ?np', t))"
      using assms(1) a PList PDict
      by (cases "handle_port_creation e self vdu_id ?np' template_dict ips ?flag")
         (auto simp: process_network_param_def map_of_del_key del_key_idem)
    with assms(2) PDict a PList show ?thesis
      by (auto simp: ebind_eq_Inr)
  qed (use assms PDict a in \<open>simp_all add: process_network_param_def\<close>)
qed (use assms in \<open>simp_all add: process_network_param_def\<close>)

lemma no_address_branch:
  assumes "py_in (PStr ''addresses'') network_param = Inr False"
    and "process_network_param e self vdu_id network_param template_dict =
           Inr (entry, network_param', template_dict')"
  shows "template_dict' = template_dict
     \<or> (\<exists>port. handle_port_creation e self vdu_id network_param' template_dict [] (PBool True)
            = Inr (port, template_dict'))"
proof (cases network_param)
  case (PDict np)
  let ?np' = "PDict (del_key ''management'' np)"
  let ?flag = "case map_of np ''management'' of None \<Rightarrow> PBool False | Some flag \<Rightarrow> flag"
  show ?thesis
  proof (cases "py_truthy ?flag")
    case False
    with assms PDict show ?thesis
      by (simp add: process_network_param_def)
  next
    case True
    with assms PDict show ?thesis
      by (cases "handle_port_creation e self vdu_id ?np' template_dict [] (PBool True)")
         (auto simp: process_network_param_def)
  qed
qed (use assms in \<open>simp_all add: process_network_param_def\<close>)

text \<open>
  C5: for every interface spec, processing it creates at most one port resource (the
  template has at most one resource more). When the spec has an address list, the
  address-triggered creation is the only one: it takes the popped management flag as its
  argument, the later test of the flag finds the flag gone, the template of the result is
  the one that this single creation returns, and the networks entry refers to its port.
\<close>

theorem one_port_per_interface:
  assumes "process_network_param e self vdu_id network_param template_dict =
             Inr (entry, network_param', template_dict')"
  shows "num_resources template_dict' \<le> num_resources template_dict + 1
     \<and> (py_in (PStr ''addresses'') network_param = Inr True \<longrightarrow>
          (\<exists>np ips port.
              network_param = PDict np \<and> map_of np ''addresses'' = Some (PList ips)
            \<and> network_param' = PDict (del_key ''management'' (del_key ''addresses'' np))
            \<and> handle_port_creation e self vdu_id network_param' template_dict ips
                 (case map_of np ''management'' of None \<Rightarrow> PBool False | Some flag \<Rightarrow> flag)
                = Inr (port, template_dict')
            \<and> entry = PDict [(''port'', PDict [(''get_resource'', PStr port)])]))"
proof
  from assms obtain b where b: "py_in (PStr ''addresses'') network_param = Inr b"
    by (cases "py_in (PStr ''addresses'') network_param") (simp_all add: process_network_param_def)
  show "num_resources template_dict' \<le> num_resources template_dict + 1"
  proof (cases b)
    case True
    with b have "py_in (PStr ''addresses'') network_param = Inr True" by simp
    from address_branch [OF this assms] obtain ips flag port where
      "handle_port_creation e self vdu_id network_param' template_dict ips flag
         = Inr (port, template_dict')" by blast
    then show ?thesis by (rule handle_port_creation_count)
  next
    case False
    with b have "py_in (PStr ''addresses'') network_param = Inr False" by simp
    from no_address_branch [OF this assms] show ?thesis
    proof
      assume "template_dict' = template_dict"
      then show ?thesis by simp
    next
      assume "\<exists>port. handle_port_creation e self vdu_id network_param' template_dict []
          (PBool True) = Inr (port, template_dict')"
      then obtain port where "handle_port_creation e self vdu_id network_param' template_dict []
          (PBool True) = Inr (port, template_dict')" by blast
      then show ?thesis by (rule handle_port_creation_count)
    qed
  qed
next
  show "py_in (PStr ''addresses'') network_param = Inr True \<longrightarrow>
          (\<exists>np ips port.
              network_param = PDict np \<and> map_of np ''addresses'' = Some (PList ips)
            \<and> network_param' = PDict (del_key ''management'' (del_key ''addresses'' np))
            \<and> handle_port_creation e self vdu_id network_param' template_dict ips
                 (case map_of np ''management'' of None \<Rightarrow> PBool False | Some flag \<Rightarrow> flag)
                = Inr (port, template_dict')
            \<and> entry = PDict [(''port'', PDict [(''get_resource'', PStr port)])])"
    using address_branch [OF _ assms] by blast
qed

theorem one_port_per_interface_witness:
  "process_network_param example_ext example_self ''vdu1'' both_triggers_spec empty_template =
     Inr (PDict [(''port'', PDict [(''get_resource'', PStr ''vdu1-net1-port'')])],
          PDict [(''network'', PStr ''net1'')],
          PDict
           [(''outputs'', PDict
              [(''mgmt_ip-vdu1'', PDict
                 [(''description'', PStr ''management ip address''),
                  (''value'', PDict
                     [(''get_attr'',
                       PList [PStr ''vdu1-net1-port'', PStr ''fixed_ips'', PInt 0,
                              PStr ''ip_address''])])])]),
            (''resources'', PDict
              [(''vdu1-net1-port'', PDict
                 [(''type'', PStr ''OS::Neutron::Port''),
                  (''properties'', PDict
                     [(''port_security_enabled'', PBool False),
                      (''fixed_ips'', PList [PDict [(''ip_address'', PStr ''10.0.0.5'')]]),
                      (''network'', PStr ''net1'')])])])])
   \<and> py_in (PStr ''addresses'') both_triggers_spec = Inr True
   \<and> num_resources empty_template = 0
   \<and> num_resources
        (PDict
           [(''outputs'', PDict
              [(''mgmt_ip-vdu1'', PDict
                 [(''description'', PStr ''management ip address''),
                  (''value'', PDict
                     [(''get_attr'',
                       PList [PStr ''vdu1-net1-port'', PStr ''fixed_ips'', PInt 0,
                              PStr ''ip_address''])])])]),
            (''resources'', PDict
              [(''vdu1-net1-port'', PDict
                 [(''type'', PStr ''OS::Neutron::Port''),
                  (''properties'', PDict
                     [(''port_security_enabled'', PBool False),
                      (''fixed_ips'', PList [PDict [(''ip_address'', PStr ''10.0.0.5'')]]),
                      (''network'', PStr ''net1'')])])])]) \<le> 0 + 1"
proof -
  have h: "process_network_param example_ext example_self ''vdu1'' both_triggers_spec empty_template =
     Inr (PDict [(''port'', PDict [(''get_resource'', PStr ''vdu1-net1-port'')])],
          PDict [(''network'', PStr ''net1'')],
          PDict
           [(''outputs'', PDict
              [(''mgmt_ip-vdu1'', PDict
                 [(''description'', PStr ''management ip address''),
                  (''value'', PDict
                     [(''get_attr'',
                       PList [PStr ''vdu1-net1-port'', PStr ''fixed_ips'', PInt 0,
                              PStr ''ip_address''])])])]),
            (''resources'', PDict
              [(''vdu1-net1-port'', PDict
                 [(''type'', PStr ''OS::Neutron::Port''),
                  (''properties'', PDict
                     [(''port_security_enabled'', PBool False),
                      (''fixed_ips'', PList [PDict [(''ip_address'', PStr ''10.0.0.5'')]]),
                      (''network'', PStr ''net1'')])])])])"
    by (simp add: process_network_param_def handle_port_creation_def make_port_dict_def
        make_mgmt_outputs_dict_def both_triggers_spec_def empty_template_def example_self_def
        example_ext_def getitem_def has_key_def Let_def)
  have a: "py_in (PStr ''addresses'') both_triggers_spec = Inr True"
    by (simp add: both_triggers_spec_def has_key_def)
  have z: "num_resources empty_template = 0"
    by (simp add: num_resources_def empty_template_def)
  show ?thesis
    using h a z one_port_per_interface [OF h] by simp
qed

subsection \<open>Port security of a synthesized port\<close>

text \<open>
  C4, as stated: every synthesized port resource has port security disabled. It fails for
  an interface spec that sets \<open>port_security_enabled\<close> itself: the properties of the spec are
  merged into the port last, and the port is created with port security enabled.
\<close>

theorem interface_spec_overrides_port_security:
  "port_property
     (handle_port_creation example_ext example_self ''vdu1'' overriding_spec empty_template []
        (PBool True))
     ''port_security_enabled'' = Some (PBool True)"
  by (simp add: port_property_def handle_port_creation_def make_port_dict_def
      make_mgmt_outputs_dict_def overriding_spec_def empty_template_def example_self_def
      example_ext_def getitem_def has_key_def Let_def)

lemma computed_unsupported_props:
  "self_unsupported_props (get_unsupported_resource_props resource_attr_support self) =
     (if resource_attr_support ''OS::Neutron::Port'' ''port_security_enabled'' then []
      else [(''OS::Neutron::Port'', [(''port_security_enabled'', ''value_specs'')])])"
  by (simp add: get_unsupported_resource_props_def HEAT_VERSION_INCOMPATIBILITY_MAP_def)

lemma py_append_all_list: "py_append_all (PList xs) vs = Inr (PList (xs @ vs))"
  by (cases vs) simp_all

lemma map_of_dict_update_other:
  "\<not> has_key kvs k \<Longrightarrow> map_of (dict_update d kvs) k = map_of d k"
proof (induction kvs arbitrary: d)
  case Nil
  show ?case by simp
next
  case (Cons kv kvs)
  obtain k' v' where kv: "kv = (k', v')" by (cases kv)
  from Cons.prems kv have "k' \<noteq> k" "\<not> has_key kvs k"
    by (auto simp: has_key_def split: if_splits)
  with Cons.IH [of "set_key k' v' d"] show ?case by (simp add: kv map_of_set_key)
qed

lemma handle_port_creation_properties:
  assumes "handle_port_creation e self vdu_id (PDict np) t ip_list mgmt_flag = Inr (port, t')"
  shows "py_path t' [''resources'', port, ''properties''] =
     Some (PDict (dict_update
       ((if self_unsupported_props self \<noteq> []
         then [(''value_specs'', PDict [(''port_security_enabled'', PBool False)])]
         else [(''port_security_enabled'', PBool False)])
        @ [(''fixed_ips'', PList (map (\<lambda>ip. PDict [(''ip_address'', ip)]) ip_list))]) np))"
  using assms
  by (auto simp: handle_port_creation_def make_port_dict_def Let_def ebind_eq_Inr getitem_Inr
      setitem_Inr py_items_Inr py_append_all_list has_key_def map_of_set_key)


lemma py_path_append:
  "py_path v (ks @ ks') = (case py_path v ks of None \<Rightarrow> None | Some w \<Rightarrow> py_path w ks')"
proof (induction ks arbitrary: v)
  case Nil
  show ?case by simp
next
  case (Cons k ks)
  show ?case by (cases v) (simp_all add: Cons split: option.splits)
qed

lemma port_property_default:
  assumes "handle_port_creation e self vdu_id network_param t ip_list mgmt_flag = Inr (port, t')"
    and "py_in (PStr key) network_param = Inr False"
    and "key \<noteq> ''fixed_ips''"
  shows "port_property (Inr (port, t')) key =
     map_of (if self_unsupported_props self \<noteq> []
             then [(''value_specs'', PDict [(''port_security_enabled'', PBool False)])]
             else [(''port_security_enabled'', PBool False)]) key"
proof -
  from assms(1) obtain np where np: "network_param = PDict np"
    by (auto simp: handle_port_creation_def ebind_eq_Inr getitem_Inr)
  with assms(2) have nk: "\<not> has_key np key" by simp
  have "py_path t' ([''resources'', port, ''properties''] @ [key]) =
      map_of (dict_update
       ((if self_unsupported_props self \<noteq> []
         then [(''value_specs'', PDict [(''port_security_enabled'', PBool False)])]
         else [(''port_security_enabled'', PBool False)])
        @ [(''fixed_ips'', PList (map (\<lambda>ip. PDict [(''ip_address'', ip)]) ip_list))]) np) key"
    using handle_port_creation_properties [OF assms(1) [unfolded np]]
    by (simp only: py_path_append) (simp split: option.splits)
  with nk assms(3) show ?thesis
    by (simp add: port_property_def map_of_dict_update_other)
qed

text \<open>
  C4, amended: every synthesized port resource has port security disabled by default,
  unless the interface spec itself supplies the property concerned, which then replaces the
  default. When the Unsupported-Property Map computed by the capability probe has no entry
  for the port resource type (the property is supported), the default is the direct
  property \<open>port_security_enabled = False\<close> and nothing else: of the properties that the
  spec does not supply, the address list apart, the port has this one only, so it has no
  substitute. When the map has an entry, the default is \<open>{port_security_enabled: False}\<close>
  under the substitute key that the entry gives for the property, and nothing else: of the
  properties that the spec does not supply, the address list apart, the port has the
  substitute only, so it has no direct property.
\<close>

theorem port_security_default:
  assumes "handle_port_creation e (get_unsupported_resource_props resource_attr_support self)
             vdu_id network_param template_dict ip_list mgmt_flag = Inr (port, template_dict')"
  shows "case map_of (self_unsupported_props (get_unsupported_resource_props resource_attr_support self))
              ''OS::Neutron::Port'' of
           None \<Rightarrow>
             resource_attr_support ''OS::Neutron::Port'' ''port_security_enabled''
             \<and> (\<forall>key. key \<noteq> ''fixed_ips'' \<longrightarrow> py_in (PStr key) network_param = Inr False \<longrightarrow>
                  port_property (Inr (port, template_dict')) key
                    = (if key = ''port_security_enabled'' then Some (PBool False) else None))
         | Some substitutes \<Rightarrow>
             \<not> resource_attr_support ''OS::Neutron::Port'' ''port_security_enabled''
             \<and> (\<exists>substitute. map_of substitutes ''port_security_enabled'' = Some substitute
                  \<and> substitute \<noteq> ''port_security_enabled''
                  \<and> (\<forall>key. key \<noteq> ''fixed_ips'' \<longrightarrow> py_in (PStr key) network_param = Inr False \<longrightarrow>
                       port_property (Inr (port, template_dict')) key
                         = (if key = substitute
                            then Some (PDict [(''port_security_enabled'', PBool False)])
                            else None)))"
proof (cases "resource_attr_support ''OS::Neutron::Port'' ''port_security_enabled''")
  case True
  then have u: "self_unsupported_props (get_unsupported_resource_props resource_attr_support self) = []"
    by (simp add: computed_unsupported_props)
  have "\<forall>key. key \<noteq> ''fixed_ips'' \<longrightarrow> py_in (PStr key) network_param = Inr False \<longrightarrow>
      port_property (Inr (port, template_dict')) key
        = (if key = ''port_security_enabled'' then Some (PBool False) else None)"
  proof (intro allI impI)
    fix key
    assume k: "key \<noteq> ''fixed_ips''" "py_in (PStr key) network_param = Inr False"
    from port_property_default [OF assms k(2) k(1)] u
    show "port_property (Inr (port, template_dict')) key
        = (if key = ''port_security_enabled'' then Some (PBool False) else None)"
      by simp
  qed
  with True u show ?thesis by simp
next
  case False
  then have u: "self_unsupported_props (get_unsupported_resource_props resource_attr_support self) =
      [(''OS::Neutron::Port'', [(''port_security_enabled'', ''value_specs'')])]"
    by (simp add: computed_unsupported_props)
  have "\<forall>key. key \<noteq> ''fixed_ips'' \<longrightarrow> py_in (PStr key) network_param = Inr False \<longrightarrow>
      port_property (Inr (port, template_dict')) key
        = (if key = ''value_specs''
           then Some (PDict [(''port_security_enabled'', PBool False)]) else None)"
  proof (intro allI impI)
    fix key
    assume k: "key \<noteq> ''fixed_ips''" "py_in (PStr key) network_param = Inr False"
    from port_property_default [OF assms k(2) k(1)] u
    show "port_property (Inr (port, template_dict')) key
        = (if key = ''value_specs''
           then Some (PDict [(''port_security_enabled'', PBool False)]) else None)"
      by simp
  qed
  with False u show ?thesis by simp
qed

theorem port_security_default_witness:
  "handle_port_creation example_ext (get_unsupported_resource_props nothing_supported example_self)
     ''vdu1'' plain_spec empty_template [] (PBool False) =
     Inr (''vdu1-net1-port'',
          PDict [(''outputs'', PDict []),
                 (''resources'', PDict
                    [(''vdu1-net1-port'', PDict
                       [(''type'', PStr ''OS::Neutron::Port''),
                        (''properties'', PDict
                           [(''value_specs'', PDict [(''port_security_enabled'', PBool False)]),
                            (''fixed_ips'', PList []),
                            (''network'', PStr ''net1'')])])])])
   \<and> map_of (self_unsupported_props (get_unsupported_resource_props nothing_supported example_self))
        ''OS::Neutron::Port'' = Some [(''port_security_enabled'', ''value_specs'')]
   \<and> py_in (PStr ''value_specs'') plain_spec = Inr False
   \<and> py_in (PStr ''port_security_enabled'') plain_spec = Inr False
   \<and> port_property
        (handle_port_creation example_ext (get_unsupported_resource_props nothing_supported example_self)
           ''vdu1'' plain_spec empty_template [] (PBool False))
        ''value_specs'' = Some (PDict [(''port_security_enabled'', PBool False)])
   \<and> port_property
        (handle_port_creation example_ext (get_unsupported_resource_props nothing_supported example_self)
           ''vdu1'' plain_spec empty_template [] (PBool False))
        ''port_security_enabled'' = None
   \<and> handle_port_creation example_ext (get_unsupported_resource_props everything_supported example_self)
     ''vdu1'' plain_spec empty_template [] (PBool False) =
     Inr (''vdu1-net1-port'',
          PDict [(''outputs'', PDict []),
                 (''resources'', PDict
                    [(''vdu1-net1-port'', PDict
                       [(''type'', PStr ''OS::Neutron::Port''),
                        (''properties'', PDict
                           [(''port_security_enabled'', PBool False),
                            (''fixed_ips'', PList []),
                            (''network'', PStr ''net1'')])])])])
   \<and> map_of (self_unsupported_props (get_unsupported_resource_props everything_supported example_self))
        ''OS::Neutron::Port'' = None
   \<and> port_property
        (handle_port_creation example_ext (get_unsupported_resource_props everything_supported example_self)
           ''vdu1'' plain_spec empty_template [] (PBool False))
        ''port_security_enabled'' = Some (PBool False)
   \<and> port_property
        (handle_port_creation example_ext (get_unsupported_resource_props everything_supported example_self)
           ''vdu1'' plain_spec empty_template [] (PBool False))
        ''value_specs'' = None"
proof -
  have u: "self_unsupported_props (get_unsupported_resource_props nothing_supported example_self) =
      [(''OS::Neutron::Port'', [(''port_security_enabled'', ''value_specs'')])]"
    by (simp add: get_unsupported_resource_props_def HEAT_VERSION_INCOMPATIBILITY_MAP_def
        nothing_supported_def)
  have u': "self_unsupported_props (get_unsupported_resource_props everything_supported example_self) = []"
    by (simp add: get_unsupported_resource_props_def HEAT_VERSION_INCOMPATIBILITY_MAP_def
        everything_supported_def)
  have h: "handle_port_creation example_ext (get_unsupported_resource_props nothing_supported example_self)
     ''vdu1'' plain_spec empty_template [] (PBool False) =
     Inr (''vdu1-net1-port'',
          PDict [(''outputs'', PDict []),
                 (''resources'', PDict
                    [(''vdu1-net1-port'', PDict
                       [(''type'', PStr ''OS::Neutron::Port''),
                        (''properties'', PDict
                           [(''value_specs'', PDict [(''port_security_enabled'', PBool False)]),
                            (''fixed_ips'', PList []),
                            (''network'', PStr ''net1'')])])])])"
    by (simp add: handle_port_creation_def make_port_dict_def u plain_spec_def empty_template_def
        example_ext_def getitem_def has_key_def Let_def)
  have h': "handle_port_creation example_ext (get_unsupported_resource_props everything_supported example_self)
     ''vdu1'' plain_spec empty_template [] (PBool False) =
     Inr (''vdu1-net1-port'',
          PDict [(''outputs'', PDict []),
                 (''resources'', PDict
                    [(''vdu1-net1-port'', PDict
                       [(''type'', PStr ''OS::Neutron::Port''),
                        (''properties'', PDict
                           [(''port_security_enabled'', PBool False),
                            (''fixed_ips'', PList []),
                            (''network'', PStr ''net1'')])])])])"
    by (simp add: handle_port_creation_def make_port_dict_def u' plain_spec_def empty_template_def
        example_ext_def getitem_def has_key_def Let_def)
  have p: "py_in (PStr ''value_specs'') plain_spec = Inr False"
    "py_in (PStr ''port_security_enabled'') plain_spec = Inr False"
    by (simp_all add: plain_spec_def has_key_def)
  have "port_property
        (handle_port_creation example_ext (get_unsupported_resource_props nothing_supported example_self)
           ''vdu1'' plain_spec empty_template [] (PBool False))
        ''value_specs'' = Some (PDict [(''port_security_enabled'', PBool False)])
   \<and> port_property
        (handle_port_creation example_ext (get_unsupported_resource_props nothing_supported example_self)
           ''vdu1'' plain_spec empty_template [] (PBool False))
        ''port_security_enabled'' = None"
    using p port_security_default [OF h] by (simp add: u h)
  moreover have "port_property
        (handle_port_creation example_ext (get_unsupported_resource_props everything_supported example_self)
           ''vdu1'' plain_spec empty_template [] (PBool False))
        ''port_security_enabled'' = Some (PBool False)
   \<and> port_property
        (handle_port_creation example_ext (get_unsupported_resource_props everything_supported example_self)
           ''vdu1'' plain_spec empty_template [] (PBool False))
        ''value_specs'' = None"
    using p port_security_default [OF h'] by (simp add: u' h')
  ultimately show ?thesis
    using h h' p u u' by simp
qed

subsection \<open>User data of a legacy unit\<close>

lemma py_get_Inr:
  "py_get c k dflt = Inr v \<longleftrightarrow>
   (\<exists>kvs. c = PDict kvs \<and> v = (case map_of kvs k of None \<Rightarrow> dflt | Some w \<Rightarrow> w))"
  by (cases c) auto















subsection \<open>The persisted template\<close>

lemma set_attribute_Inr:
  "set_attribute vnf key v = Inr vnf' \<longleftrightarrow>
   (\<exists>kvs attrs. vnf = PDict kvs \<and> map_of kvs ''attributes'' = Some (PDict attrs)
      \<and> vnf' = PDict (set_key ''attributes'' (PDict (set_key key v attrs)) kvs))"
  by (auto simp: set_attribute_def ebind_eq_Inr getitem_Inr setitem_Inr)

lemma handle_scaling_no_expansion:
  assumes "getitem vnfd_dict ''topology_template'' = Inr topology_template"
    and "generate_hot_scaling topology_template ''scaling.yaml'' =
           Inr (False, scaling_group_names, main_dict)"
  shows "handle_scaling e self vnfd_dict =
     ebind (generate_hot_alarm_resource e self topology_template)
       (\<lambda>(is_enabled_alarm, alarm_resource, sub_heat_tpl_yaml, self1).
     ebind (if is_enabled_alarm
            then setitem (self_fields self1) ''template'' (self_heat_template_yaml self1)
            else Inr (self_fields self1)) (\<lambda>fields.
     ebind (getitem (self_vnf self) ''attributes'') (\<lambda>attrs.
     ebind (py_get attrs ''heat_template'' PNone) (\<lambda>persisted.
       if \<not> py_truthy persisted then
         ebind (getitem fields ''template'') (\<lambda>template.
         ebind (set_attribute (self_vnf self) ''heat_template'' template) (\<lambda>vnf.
           Inr (self1\<lparr>self_vnf := vnf, self_fields := fields\<rparr>)))
       else Inr (self1\<lparr>self_vnf := self_vnf self, self_fields := fields\<rparr>)))))"
  by (simp add: handle_scaling_def Let_def assms)

lemma ebind_InrE:
  assumes "ebind m f = Inr y"
  obtains x where "m = Inr x" and "f x = Inr y"
  using assms by (auto simp: ebind_eq_Inr)

text \<open>
  C9: for every run of the final assembly in which scaling expansion did not occur, if a
  persisted template exists on the service record the whole record is left as it was (the
  persisted template is not overwritten); the template field is written only when no
  persisted template exists, and then it receives the template of the output fields.
\<close>

theorem persisted_template_kept:
  assumes "handle_scaling e self vnfd_dict = Inr self'"
    and "getitem vnfd_dict ''topology_template'' = Inr topology_template"
    and "generate_hot_scaling topology_template ''scaling.yaml'' =
           Inr (False, scaling_group_names, main_dict)"
  shows "(py_truthy (persisted_template (self_vnf self)) \<longrightarrow> self_vnf self' = self_vnf self)
     \<and> (\<not> py_truthy (persisted_template (self_vnf self)) \<longrightarrow>
          (\<exists>template. py_path (self_fields self') [''template''] = Some template
             \<and> py_path (self_vnf self') [''attributes'', ''heat_template''] = Some template))"
proof -
  note h = assms(1) [unfolded handle_scaling_no_expansion [OF assms(2,3)]]
  from h obtain r where "generate_hot_alarm_resource e self topology_template = Inr r"
    and h1: "(case r of (is_enabled_alarm, alarm_resource, sub_heat_tpl_yaml, self1) \<Rightarrow>
     ebind (if is_enabled_alarm
            then setitem (self_fields self1) ''template'' (self_heat_template_yaml self1)
            else Inr (self_fields self1)) (\<lambda>fields.
     ebind (getitem (self_vnf self) ''attributes'') (\<lambda>attrs.
     ebind (py_get attrs ''heat_template'' PNone) (\<lambda>persisted.
       if \<not> py_truthy persisted then
         ebind (getitem fields ''template'') (\<lambda>template.
         ebind (set_attribute (self_vnf self) ''heat_template'' template) (\<lambda>vnf.
           Inr (self1\<lparr>self_vnf := vnf, self_fields := fields\<rparr>)))
       else Inr (self1\<lparr>self_vnf := self_vnf self, self_fields := fields\<rparr>))))) = Inr self'"
    by (rule ebind_InrE)
  obtain a b c self1 where r: "r = (a, b, c, self1)" by (cases r)
  from h1 [unfolded r prod.case] obtain fields where
    h2: "ebind (getitem (self_vnf self) ''attributes'') (\<lambda>attrs.
     ebind (py_get attrs ''heat_template'' PNone) (\<lambda>persisted.
       if \<not> py_truthy persisted then
         ebind (getitem fields ''template'') (\<lambda>template.
         ebind (set_attribute (self_vnf self) ''heat_template'' template) (\<lambda>vnf.
           Inr (self1\<lparr>self_vnf := vnf, self_fields := fields\<rparr>)))
       else Inr (self1\<lparr>self_vnf := self_vnf self, self_fields := fields\<rparr>))) = Inr self'"
    by (rule ebind_InrE)
  from h2 obtain attrs where a: "getitem (self_vnf self) ''attributes'' = Inr attrs"
    and h3: "ebind (py_get attrs ''heat_template'' PNone) (\<lambda>persisted.
       if \<not> py_truthy persisted then
         ebind (getitem fields ''template'') (\<lambda>template.
         ebind (set_attribute (self_vnf self) ''heat_template'' template) (\<lambda>vnf.
           Inr (self1\<lparr>self_vnf := vnf, self_fields := fields\<rparr>)))
       else Inr (self1\<lparr>self_vnf := self_vnf self, self_fields := fields\<rparr>)) = Inr self'"
    by (rule ebind_InrE)
  from h3 obtain persisted where p: "py_get attrs ''heat_template'' PNone = Inr persisted"
    and h4: "(if \<not> py_truthy persisted then
         ebind (getitem fields ''template'') (\<lambda>template.
         ebind (set_attribute (self_vnf self) ''heat_template'' template) (\<lambda>vnf.
           Inr (self1\<lparr>self_vnf := vnf, self_fields := fields\<rparr>)))
       else Inr (self1\<lparr>self_vnf := self_vnf self, self_fields := fields\<rparr>)) = Inr self'"
    by (rule ebind_InrE)
  from a p have pt: "persisted_template (self_vnf self) = persisted"
    by (auto simp: getitem_Inr py_get_Inr persisted_template_def split: option.splits)
  show ?thesis
  proof (cases "py_truthy persisted")
    case True
    with h4 pt show ?thesis by auto
  next
    case False
    with h4 obtain template where t: "getitem fields ''template'' = Inr template"
      and h5: "ebind (set_attribute (self_vnf self) ''heat_template'' template) (\<lambda>vnf.
           Inr (self1\<lparr>self_vnf := vnf, self_fields := fields\<rparr>)) = Inr self'"
      by (auto elim: ebind_InrE)
    from h5 obtain vnf' where s: "set_attribute (self_vnf self) ''heat_template'' template = Inr vnf'"
      and e: "self' = self1\<lparr>self_vnf := vnf', self_fields := fields\<rparr>"
      by (auto elim: ebind_InrE)
    from s have "py_path vnf' [''attributes'', ''heat_template''] = Some template"
      by (auto simp: set_attribute_Inr map_of_set_key)
    moreover from t have "py_path fields [''template''] = Some template"
      by (auto simp: getitem_Inr)
    ultimately show ?thesis using False pt e by simp
  qed
qed

theorem persisted_template_kept_witness:
  "handle_scaling parsing_ext persisted_self no_policy_descriptor =
     Inr (persisted_self\<lparr>self_heat_template_yaml := PStr ''<yaml>''\<rparr>)
   \<and> getitem no_policy_descriptor ''topology_template'' = Inr (PDict [])
   \<and> generate_hot_scaling (PDict []) ''scaling.yaml'' =
       Inr (False, [],
            PDict [(''heat_template_version'', PDate 2013 5 23),
                   (''description'', PStr ''Tacker scaling template''),
                   (''parameters'', PDict []), (''resources'', PDict [])])
   \<and> py_truthy (persisted_template (self_vnf persisted_self))
   \<and> self_vnf (persisted_self\<lparr>self_heat_template_yaml := PStr ''<yaml>''\<rparr>) = self_vnf persisted_self
   \<and> persisted_template (self_vnf (persisted_self\<lparr>self_heat_template_yaml := PStr ''<yaml>''\<rparr>))
       = PStr ''old''"
proof -
  have g: "getitem no_policy_descriptor ''topology_template'' = Inr (PDict [])"
    by (simp add: no_policy_descriptor_def getitem_def)
  have s: "generate_hot_scaling (PDict []) ''scaling.yaml'' =
       Inr (False, [],
            PDict [(''heat_template_version'', PDate 2013 5 23),
                   (''description'', PStr ''Tacker scaling template''),
                   (''parameters'', PDict []), (''resources'', PDict [])])"
    by (simp add: generate_hot_scaling_def heat_template_base_def has_key_def)
  have h: "handle_scaling parsing_ext persisted_self no_policy_descriptor =
     Inr (persisted_self\<lparr>self_heat_template_yaml := PStr ''<yaml>''\<rparr>)"
    by (simp add: handle_scaling_no_expansion [OF g s] generate_hot_alarm_resource_def
        parsing_ext_def example_ext_def persisted_self_def example_self_def getitem_def
        has_key_def Let_def)
  have p: "py_truthy (persisted_template (self_vnf persisted_self))"
    by (simp add: persisted_template_def persisted_self_def)
  have o: "persisted_template (self_vnf persisted_self) = PStr ''old''"
    by (simp add: persisted_template_def persisted_self_def)
  show ?thesis
    using g s h p o persisted_template_kept [OF h g s] by simp
qed

subsection \<open>Correlation of the alarm with the scalable unit\<close>








end
